theory Spec2Isabelle
  imports Complex_Main "HOL-Library.AList"
begin

section \<open>Stream decoder: \<^verbatim>\<open>StreamParser\<close> of utils/streamParser.js\<close>

text \<open>
  A JavaScript exception that leaves a function is a value of \<open>js_error\<close>. A function
  that can throw returns a sum, with \<open>Inl\<close> for the exception; where the function has
  mutated state before it throws, \<open>Inl\<close> holds that state too.
\<close>

datatype js_error = TypeError | SyntaxError

text \<open>
  The wire format of one chunk. An absent (undefined or null) property is \<open>None\<close>.
  A fragment's \<open>index\<close> is a position in the tool-call list, a natural number.
\<close>

record function_fragment =
  fragment_name :: "string option"
  fragment_arguments :: "string option"

record tool_call_fragment =
  frag_index :: nat
  frag_id :: "string option"
  frag_function :: "function_fragment option"

record tool_call_start =
  start_id :: string
  start_name :: string

record chunk =
  chunk_type :: "string option"
  chunk_content :: "string option"
  chunk_tool_calls :: "tool_call_fragment list option"
  chunk_tool_call_start :: "tool_call_start option"
  chunk_tool_input_delta :: "string option"
  chunk_finish_reason :: "string option"

text \<open>
  An entry of \<open>toolCallsBuffer\<close>: \<open>{id, type: 'function', function: {name, arguments}}\<close>.
  The field \<open>type\<close> is the constant \<open>'function'\<close> and is left out.
\<close>

record tool_call =
  tc_id :: string
  tc_name :: string
  tc_arguments :: string

text \<open>
  The parser object. \<open>toolCallsBuffer\<close> is a JavaScript object with integer keys: an
  association list with one pair per key. \<open>Object.values\<close> lists the values of integer
  keys in ascending key order (of array indices, that is keys below \<open>2^32 - 1\<close>, as the
  indices of a tool-call list are); \<open>Object.keys(..).length\<close> is the number of pairs.
\<close>

record stream_parser =
  line_buffer :: string
  contentBuffer :: string
  toolCallsBuffer :: "(nat \<times> tool_call) list"
  finishReason :: "string option"

record chunk_result =
  res_type :: "string option"
  delta_content :: "string option"
  acc_content :: "string option"
  acc_toolCalls :: "tool_call list option"
  res_finishReason :: "string option"

record parse_result =
  result_content :: string
  result_toolCalls :: "tool_call list option"
  result_finishReason :: "string option"

definition new_parser :: stream_parser where
  "new_parser = \<lparr>line_buffer = [], contentBuffer = [], toolCallsBuffer = [], finishReason = None\<rparr>"

definition reset :: "stream_parser \<Rightarrow> stream_parser" where
  "reset p = p\<lparr>line_buffer := [], contentBuffer := [], toolCallsBuffer := [], finishReason := None\<rparr>"

text \<open>JavaScript truthiness of an optional string: present and not empty.\<close>

definition truthy :: "string option \<Rightarrow> bool" where
  "truthy v = (case v of None \<Rightarrow> False | Some s \<Rightarrow> s \<noteq> [])"

text \<open>\<open>v || ''\<close> for an optional string.\<close>

definition or_empty :: "string option \<Rightarrow> string" where
  "or_empty v = (case v of None \<Rightarrow> [] | Some s \<Rightarrow> s)"

text \<open>\<open>toolCall.function?.name\<close> and \<open>toolCall.function?.arguments\<close>.\<close>

definition function_name :: "tool_call_fragment \<Rightarrow> string option" where
  "function_name toolCall =
     (case frag_function toolCall of None \<Rightarrow> None | Some f \<Rightarrow> fragment_name f)"

definition function_arguments :: "tool_call_fragment \<Rightarrow> string option" where
  "function_arguments toolCall =
     (case frag_function toolCall of None \<Rightarrow> None | Some f \<Rightarrow> fragment_arguments f)"

definition Object_values :: "(nat \<times> 'a) list \<Rightarrow> 'a list" where
  "Object_values obj = map snd (sort_key fst obj)"

definition Object_keys_length :: "(nat \<times> 'a) list \<Rightarrow> nat" where
  "Object_keys_length obj = length obj"

text \<open>The name-merge test of lines 64-71, applied to the entry stored at the index.\<close>

definition merge_name :: "string \<Rightarrow> tool_call \<Rightarrow> tool_call" where
  "merge_name newName entry =
     (let currentName = tc_name entry in
      if currentName = [] \<or> (newName \<noteq> currentName \<and> length currentName \<le> length newName)
      then entry\<lparr>tc_name := newName\<rparr>
      else entry)"

text \<open>The body of the loop over \<open>chunk.tool_calls\<close> (lines 48-85), for one fragment.\<close>

definition process_tool_call ::
  "(nat \<times> tool_call) list \<Rightarrow> tool_call_fragment \<Rightarrow> (nat \<times> tool_call) list" where
  "process_tool_call buf toolCall =
     (let index = frag_index toolCall;
          buf1 = (if map_of buf index = None
                  then AList.update index
                         \<lparr>tc_id = or_empty (frag_id toolCall),
                          tc_name = or_empty (function_name toolCall),
                          tc_arguments = []\<rparr> buf
                  else buf);
          buf2 = (if truthy (function_name toolCall)
                  then AList.map_entry index (merge_name (or_empty (function_name toolCall))) buf1
                  else buf1);
          buf3 = (if truthy (function_arguments toolCall)
                  then AList.map_entry index
                         (\<lambda>e. e\<lparr>tc_arguments := tc_arguments e @ or_empty (function_arguments toolCall)\<rparr>)
                         buf2
                  else buf2)
      in if truthy (frag_id toolCall)
         then AList.map_entry index (\<lambda>e. e\<lparr>tc_id := or_empty (frag_id toolCall)\<rparr>) buf3
         else buf3)"

text \<open>The five blocks of \<open>processChunk\<close>, in source order.\<close>

definition handle_content :: "chunk \<Rightarrow> stream_parser \<times> chunk_result \<Rightarrow> stream_parser \<times> chunk_result" where
  "handle_content c pr =
     (let (p, r) = pr in
      if truthy (chunk_content c)
      then (let p' = p\<lparr>contentBuffer := contentBuffer p @ or_empty (chunk_content c)\<rparr>
            in (p', r\<lparr>delta_content := chunk_content c, acc_content := Some (contentBuffer p')\<rparr>))
      else (p, r))"

definition handle_tool_calls :: "chunk \<Rightarrow> stream_parser \<times> chunk_result \<Rightarrow> stream_parser \<times> chunk_result" where
  "handle_tool_calls c pr =
     (let (p, r) = pr in
      case chunk_tool_calls c of
        None \<Rightarrow> (p, r)
      | Some toolCalls \<Rightarrow>
          (let p' = p\<lparr>toolCallsBuffer := foldl process_tool_call (toolCallsBuffer p) toolCalls\<rparr>
           in (p', r\<lparr>acc_toolCalls := Some (Object_values (toolCallsBuffer p'))\<rparr>)))"

definition handle_tool_call_start :: "chunk \<Rightarrow> stream_parser \<times> chunk_result \<Rightarrow> stream_parser \<times> chunk_result" where
  "handle_tool_call_start c pr =
     (let (p, r) = pr in
      case chunk_tool_call_start c of
        None \<Rightarrow> (p, r)
      | Some st \<Rightarrow>
          (let index = Object_keys_length (toolCallsBuffer p);
               p' = p\<lparr>toolCallsBuffer :=
                      AList.update index
                        \<lparr>tc_id = start_id st, tc_name = start_name st, tc_arguments = []\<rparr>
                        (toolCallsBuffer p)\<rparr>
           in (p', r\<lparr>acc_toolCalls := Some (Object_values (toolCallsBuffer p'))\<rparr>)))"

text \<open>
  \<open>this.toolCallsBuffer[lastIndex].function.arguments += ...\<close> reads a property of
  \<open>undefined\<close> when no entry is stored under \<open>lastIndex\<close>: a TypeError.
\<close>

definition handle_tool_input_delta ::
  "chunk \<Rightarrow> stream_parser \<times> chunk_result \<Rightarrow> js_error + (stream_parser \<times> chunk_result)" where
  "handle_tool_input_delta c pr =
     (let (p, r) = pr in
      if truthy (chunk_tool_input_delta c)
      then (let lastIndex = int (Object_keys_length (toolCallsBuffer p)) - 1 in
            if 0 \<le> lastIndex
            then (case map_of (toolCallsBuffer p) (nat lastIndex) of
                    None \<Rightarrow> Inl TypeError
                  | Some _ \<Rightarrow>
                      (let p' = p\<lparr>toolCallsBuffer :=
                                  AList.map_entry (nat lastIndex)
                                    (\<lambda>e. e\<lparr>tc_arguments := tc_arguments e @ or_empty (chunk_tool_input_delta c)\<rparr>)
                                    (toolCallsBuffer p)\<rparr>
                       in Inr (p', r\<lparr>acc_toolCalls := Some (Object_values (toolCallsBuffer p'))\<rparr>)))
            else Inr (p, r\<lparr>acc_toolCalls := Some (Object_values (toolCallsBuffer p))\<rparr>))
      else Inr (p, r))"

definition handle_finish_reason :: "chunk \<Rightarrow> stream_parser \<times> chunk_result \<Rightarrow> stream_parser \<times> chunk_result" where
  "handle_finish_reason c pr =
     (let (p, r) = pr in
      if truthy (chunk_finish_reason c)
      then (p\<lparr>finishReason := chunk_finish_reason c\<rparr>, r\<lparr>res_finishReason := chunk_finish_reason c\<rparr>)
      else (p, r))"

definition processChunk ::
  "stream_parser \<Rightarrow> chunk \<Rightarrow> (js_error \<times> stream_parser) + (stream_parser \<times> chunk_result)" where
  "processChunk p c =
     (let result = \<lparr>res_type = chunk_type c, delta_content = None, acc_content = None,
                     acc_toolCalls = None, res_finishReason = None\<rparr>;
          pr = handle_tool_call_start c (handle_tool_calls c (handle_content c (p, result)))
      in case handle_tool_input_delta c pr of
           Inl e \<Rightarrow> Inl (e, fst pr)
         | Inr pr' \<Rightarrow> Inr (handle_finish_reason c pr'))"

definition getResult :: "stream_parser \<Rightarrow> parse_result" where
  "getResult p =
     (let toolCalls = Object_values (toolCallsBuffer p) in
      \<lparr>result_content = contentBuffer p,
       result_toolCalls = (if 0 < length toolCalls then Some toolCalls else None),
       result_finishReason = finishReason p\<rparr>)"

text \<open>
  A stream is consumed by calling \<open>processChunk\<close> once per chunk, in arrival order. The
  consumer (\<open>streamChat\<close>, lines 477-482) catches an exception of the chunk callback, logs
  it and goes on with the next chunk; by then the blocks before the throwing one have
  mutated the parser. \<open>processChunks\<close> returns the parser after the last chunk and the
  exceptions that were caught on the way.
\<close>

fun processChunks :: "stream_parser \<Rightarrow> chunk list \<Rightarrow> stream_parser \<times> js_error list" where
  "processChunks p [] = (p, [])"
| "processChunks p (c # cs) =
     (case processChunk p c of
        Inl (e, p') \<Rightarrow> (let (q, es) = processChunks p' cs in (q, e # es))
      | Inr (p', r) \<Rightarrow> processChunks p' cs)"

section \<open>Panels, the panel registry and the store\<close>

text \<open>
  JSON values, opaque to the orchestration layer: tool arguments, tool results, input
  schemas, context data, attachments. A JavaScript object is an association list in
  insertion order, one pair per key.
\<close>

datatype json =
    JNull
  | JBool bool
  | JNumber real
  | JString string
  | JArray "json list"
  | JObject "(string \<times> json) list"

type_synonym js_object = "(string \<times> json) list"

text \<open>
  The object spread \<open>{...a, ...b}\<close>: a shallow merge, the keys of \<open>b\<close> win. The order is
  that of keys that are not integers, as the keys of a panel state are.
\<close>

definition spread :: "js_object \<Rightarrow> js_object \<Rightarrow> js_object" where
  "spread a b = foldl (\<lambda>acc kv. AList.update (fst kv) (snd kv) acc) a b"

record panel_instance =
  panel_id :: string
  panelTypeId :: string
  panel_title :: string
  panel_mode :: string
  panel_state :: js_object
  panel_order :: nat
  isAIObserving :: bool

record tool_definition =
  tool_name :: string
  tool_description :: string
  inputSchema :: "json option"

text \<open>
  A tool of \<open>collectTools\<close>: \<open>{...tool, _panelId, _panelTypeId, _panelTitle, name, originalName}\<close>.
\<close>

record aggregated_tool =
  agg_name :: string
  agg_description :: string
  agg_inputSchema :: "json option"
  agg_panelId :: string
  agg_panelTypeId :: string
  agg_panelTitle :: string
  originalName :: string

text \<open>
  The descriptor \<open>{type, data}\<close> of \<open>getLLMContext\<close>; an absent \<open>data\<close> is \<open>None\<close>.
  \<open>js_truthy\<close> is JavaScript's truthiness of a JSON value.
\<close>

record llm_context =
  context_kind :: string
  context_payload :: "json option"

fun js_truthy :: "json \<Rightarrow> bool" where
  "js_truthy JNull = False"
| "js_truthy (JBool b) = b"
| "js_truthy (JNumber x) = (x \<noteq> 0)"
| "js_truthy (JString s) = (s \<noteq> [])"
| "js_truthy (JArray xs) = True"
| "js_truthy (JObject kvs) = True"

text \<open>
  What a panel method throws, or rejects its promise with: an Error object with its
  message, \<open>null\<close> or \<open>undefined\<close>, or any other value, one without a \<open>message\<close>
  property.
\<close>

datatype js_thrown = ErrorObject string | Nullish | OtherValue

text \<open>
  The capability contract of a panel type. A method the definition lacks is \<open>None\<close>. A
  method that throws returns \<open>Inl\<close> of the thrown value. \<open>executeMCPTool\<close> gets the
  original tool name, the arguments and the panel's state; it returns the partial states
  it passed to \<open>updateState\<close>, in call order, and its result or the value it threw.
\<close>

record panel_definition =
  getMCPTools :: "(js_object \<Rightarrow> js_thrown + tool_definition list) option"
  executeMCPTool :: "(string \<Rightarrow> json \<Rightarrow> js_object \<Rightarrow> js_object list \<times> (js_thrown + json)) option"
  getLLMContext :: "(js_object \<Rightarrow> js_thrown + llm_context option) option"

text \<open>
  What the code reads from its host: the panel registry (\<open>getPanelDefinition\<close> is the
  lookup of a Map) and the built-ins \<open>JSON.parse\<close> (\<open>None\<close> when it throws a
  SyntaxError), \<open>JSON.stringify(v)\<close> and \<open>JSON.stringify(v, null, 2)\<close>.
\<close>

record environment =
  getPanelDefinition :: "string \<Rightarrow> panel_definition option"
  JSON_parse :: "string \<Rightarrow> json option"
  JSON_stringify :: "json \<Rightarrow> string"
  JSON_stringify_indent :: "json \<Rightarrow> string"

text \<open>The store's \<open>updatePanelState\<close> and \<open>getVisiblePanels\<close> (context/StudioContext.jsx).\<close>

definition updatePanelState :: "string \<Rightarrow> js_object \<Rightarrow> panel_instance list \<Rightarrow> panel_instance list" where
  "updatePanelState ident newState panels =
     map (\<lambda>p. if panel_id p = ident then p\<lparr>panel_state := spread (panel_state p) newState\<rparr> else p) panels"

definition getVisiblePanels :: "panel_instance list \<Rightarrow> panel_instance list" where
  "getVisiblePanels panels = filter (\<lambda>p. panel_mode p \<noteq> ''hidden'') panels"

section \<open>Tool aggregation, context and dispatch: \<^verbatim>\<open>MCPOrchestrator\<close>\<close>

definition enrich :: "panel_instance \<Rightarrow> tool_definition \<Rightarrow> aggregated_tool" where
  "enrich panel tool =
     \<lparr>agg_name = panelTypeId panel @ ''_'' @ tool_name tool,
      agg_description = tool_description tool,
      agg_inputSchema = inputSchema tool,
      agg_panelId = panel_id panel,
      agg_panelTypeId = panelTypeId panel,
      agg_panelTitle = panel_title panel,
      originalName = tool_name tool\<rparr>"

text \<open>The loop of \<open>collectTools\<close> over the panels, \<open>allTools\<close> being its accumulator.\<close>

fun collect_loop :: "environment \<Rightarrow> panel_instance list \<Rightarrow> aggregated_tool list \<Rightarrow> aggregated_tool list" where
  "collect_loop env [] allTools = allTools"
| "collect_loop env (panel # panels) allTools =
     (case getPanelDefinition env (panelTypeId panel) of
        None \<Rightarrow> collect_loop env panels allTools
      | Some defn \<Rightarrow>
          (case getMCPTools defn of
             None \<Rightarrow> collect_loop env panels allTools
           | Some get \<Rightarrow>
               (case get (panel_state panel) of
                  Inl message \<Rightarrow> collect_loop env panels allTools
                | Inr tools \<Rightarrow> collect_loop env panels (allTools @ map (enrich panel) tools))))"

text \<open>
  \<open>collectTools\<close> returns the tools and rebuilds \<open>toolCache\<close>, a Map keyed by the
  namespaced name: cleared, then set once per tool in list order.
\<close>

type_synonym tool_cache = "string \<Rightarrow> aggregated_tool option"

definition collectTools ::
  "environment \<Rightarrow> tool_cache \<Rightarrow> panel_instance list \<Rightarrow> tool_cache \<times> aggregated_tool list" where
  "collectTools env toolCache panels =
     (let allTools = collect_loop env panels []
      in (foldl (\<lambda>cache tool. cache(agg_name tool \<mapsto> tool)) Map.empty allTools, allTools))"

record observed_panel =
  op_panelId :: string
  op_panelType :: string
  op_panelTitle :: string
  op_context :: "llm_context option"

record aggregated_context =
  observedPanels :: "observed_panel list"
  context_timestamp :: nat

definition observe :: "environment \<Rightarrow> panel_instance \<Rightarrow> observed_panel option" where
  "observe env panel =
     (case getPanelDefinition env (panelTypeId panel) of
        None \<Rightarrow> None
      | Some defn \<Rightarrow>
          (case getLLMContext defn of
             None \<Rightarrow> None
           | Some get \<Rightarrow>
               (case get (panel_state panel) of
                  Inl message \<Rightarrow> None
                | Inr ctx \<Rightarrow>
                    Some \<lparr>op_panelId = panel_id panel, op_panelType = panelTypeId panel,
                          op_panelTitle = panel_title panel, op_context = ctx\<rparr>)))"

definition buildContext :: "environment \<Rightarrow> nat \<Rightarrow> panel_instance list \<Rightarrow> aggregated_context" where
  "buildContext env now panels =
     \<lparr>observedPanels = List.map_filter (observe env) (filter isAIObserving panels),
      context_timestamp = now\<rparr>"

text \<open>
  \<open>generateSystemPrompt\<close> pushes lines onto \<open>parts\<close> and joins them with a newline.
  \<open>s.slice(0, 2000)\<close> is \<open>take 2000 s\<close>.
\<close>

definition prompt_intro :: "string list" where
  "prompt_intro =
     [''You are an AI assistant integrated into Nexus GraphStudio, a multi-panel IDE for graphical authoring.'',
      '''',
      ''## Your Capabilities'',
      ''- You can observe and understand the content of panels that users have enabled AI observation for.'',
      ''- You can execute tools to modify panels, create content, and perform actions.'',
      ''- You should be helpful, concise, and focused on the user's creative workflow.'',
      '''']"

definition prompt_guidelines :: "string list" where
  "prompt_guidelines =
     [''## Guidelines'',
      ''- Be concise and helpful'',
      ''- When users ask you to modify a panel, use the appropriate tool'',
      ''- If you need more context, ask the user to enable AI observation on relevant panels'',
      ''- Always explain what you're doing when using tools'']"

text \<open>The body of the loop over \<open>context.observedPanels\<close> (lines 206-221).\<close>

definition push_panel :: "environment \<Rightarrow> string list \<Rightarrow> observed_panel \<Rightarrow> string list" where
  "push_panel env parts panel =
     (let parts1 = parts @ [''### '' @ op_panelTitle panel @ '' ('' @ op_panelType panel @ '')''];
          parts2 =
            (case op_context panel of
               None \<Rightarrow> parts1
             | Some ctx \<Rightarrow>
                 if context_kind ctx = ''empty'' then parts1 @ [''- Empty or minimal content'']
                 else (case context_payload ctx of
                         None \<Rightarrow> parts1
                       | Some (JString d) \<Rightarrow> parts1 @ [''```'', take 2000 d, ''```'']
                       | Some d \<Rightarrow>
                           if js_truthy d
                           then parts1 @ [''```json'', take 2000 (JSON_stringify_indent env d), ''```'']
                           else parts1))
      in parts2 @ [''''])"

text \<open>The body of the loop over \<open>tools\<close> (lines 230-235).\<close>

definition push_tool :: "string list \<Rightarrow> aggregated_tool \<Rightarrow> string list" where
  "push_tool parts tool =
     (let parts1 = parts @ [''- **'' @ agg_name tool @ ''**: '' @ agg_description tool]
      in if agg_panelTitle tool \<noteq> [] then parts1 @ [''  - Source: '' @ agg_panelTitle tool] else parts1)"

fun join :: "string \<Rightarrow> string list \<Rightarrow> string" where
  "join sep [] = []"
| "join sep [x] = x"
| "join sep (x # y # ys) = x @ sep @ join sep (y # ys)"

definition prompt_parts :: "environment \<Rightarrow> aggregated_context \<Rightarrow> aggregated_tool list \<Rightarrow> string list" where
  "prompt_parts env ctx tools =
     (let parts = prompt_intro;
          parts1 = (if 0 < length (observedPanels ctx)
                    then foldl (push_panel env)
                           (parts @ [''## Currently Observed Panels'',
                                     ''The following panels are being observed (you can see their content):'',
                                     ''''])
                           (observedPanels ctx)
                    else parts);
          parts2 = (if 0 < length tools
                    then foldl push_tool
                           (parts1 @ [''## Available Tools'', ''You have access to the following tools:'', ''''])
                           tools @ ['''']
                    else parts1)
      in parts2 @ prompt_guidelines)"

definition generateSystemPrompt :: "environment \<Rightarrow> aggregated_context \<Rightarrow> aggregated_tool list \<Rightarrow> string" where
  "generateSystemPrompt env ctx tools = join [CHR 0x0A] (prompt_parts env ctx tools)"

text \<open>
  The result of \<open>executeTool\<close>: \<open>{success, result?, error?, toolName?, panelTitle?}\<close>, an
  absent property being \<open>None\<close>.
\<close>

record tool_result =
  success :: bool
  tr_result :: "json option"
  tr_error :: "string option"
  tr_toolName :: "string option"
  tr_panelTitle :: "string option"

definition failure :: "string \<Rightarrow> string option \<Rightarrow> tool_result" where
  "failure message name =
     \<lparr>success = False, tr_result = None, tr_error = Some message, tr_toolName = name,
      tr_panelTitle = None\<rparr>"

text \<open>
  \<open>executeTool\<close> reads \<open>toolCache\<close> and the store's panels, and returns its result with
  the panels as the executor's \<open>updateState\<close> calls left them. Its \<open>catch\<close> block
  (lines 302-309) builds the failure from \<open>error.message\<close>: the message of an Error
  object, \<open>undefined\<close> for another value, and a TypeError, which leaves \<open>executeTool\<close>,
  when the thrown value is \<open>null\<close> or \<open>undefined\<close>.
\<close>

definition executeTool ::
  "environment \<Rightarrow> tool_cache \<Rightarrow> panel_instance list \<Rightarrow> string \<Rightarrow> json \<Rightarrow>
     (js_error \<times> panel_instance list) + (tool_result \<times> panel_instance list)" where
  "executeTool env toolCache panels toolName args =
     (case toolCache toolName of
        None \<Rightarrow> Inr (failure (''Unknown tool: '' @ toolName) None, panels)
      | Some tool \<Rightarrow>
          (case (case getPanelDefinition env (agg_panelTypeId tool) of
                   None \<Rightarrow> None
                 | Some defn \<Rightarrow> executeMCPTool defn) of
             None \<Rightarrow>
               Inr (failure (''Panel '' @ agg_panelTypeId tool @ '' does not support tool execution'') None,
                    panels)
           | Some execute \<Rightarrow>
               (case find (\<lambda>p. panel_id p = agg_panelId tool) panels of
                  None \<Rightarrow> Inr (failure (''Panel '' @ agg_panelId tool @ '' not found'') None, panels)
                | Some panel \<Rightarrow>
                    (let (updates, outcome) = execute (originalName tool) args (panel_state panel);
                         panels' = foldl (\<lambda>ps newState. updatePanelState (agg_panelId tool) newState ps)
                                     panels updates
                     in case outcome of
                          Inr result \<Rightarrow>
                            Inr (\<lparr>success = True, tr_result = Some result, tr_error = None,
                                  tr_toolName = Some toolName,
                                  tr_panelTitle = Some (panel_title panel)\<rparr>, panels')
                        | Inl (ErrorObject message) \<Rightarrow> Inr (failure message (Some toolName), panels')
                        | Inl OtherValue \<Rightarrow>
                            Inr (\<lparr>success = False, tr_result = None, tr_error = None,
                                  tr_toolName = Some toolName, tr_panelTitle = None\<rparr>, panels')
                        | Inl Nullish \<Rightarrow> Inl (TypeError, panels')))))"

text \<open>An entry of \<open>processToolCalls\<close>' results: \<open>{toolCallId, name, ...result}\<close>.\<close>

record tool_call_result = tool_result +
  toolCallId :: string
  call_name :: string

text \<open>
  The loop of \<open>processToolCalls\<close>. The arguments of a streamed tool call are a string, so
  each call goes through \<open>JSON.parse\<close>, outside any \<open>try\<close>: its SyntaxError leaves the
  function, with the panels as the calls before it left them, and so does an exception of
  \<open>executeTool\<close>.
\<close>

fun processToolCalls_loop ::
  "environment \<Rightarrow> tool_cache \<Rightarrow> tool_call list \<Rightarrow> tool_call_result list \<Rightarrow> panel_instance list \<Rightarrow>
     (js_error \<times> panel_instance list) + (tool_call_result list \<times> panel_instance list)" where
  "processToolCalls_loop env toolCache [] results panels = Inr (results, panels)"
| "processToolCalls_loop env toolCache (call # calls) results panels =
     (case JSON_parse env (tc_arguments call) of
        None \<Rightarrow> Inl (SyntaxError, panels)
      | Some args \<Rightarrow>
          (case executeTool env toolCache panels (tc_name call) args of
             Inl (e, panels') \<Rightarrow> Inl (e, panels')
           | Inr (result, panels') \<Rightarrow>
               processToolCalls_loop env toolCache calls
                 (results @ [tool_result.extend result
                               (tool_call_result.fields (tc_id call) (tc_name call))])
                 panels'))"

definition processToolCalls ::
  "environment \<Rightarrow> tool_cache \<Rightarrow> panel_instance list \<Rightarrow> tool_call list \<Rightarrow>
     (js_error \<times> panel_instance list) + (tool_call_result list \<times> panel_instance list)" where
  "processToolCalls env toolCache panels toolCalls = processToolCalls_loop env toolCache toolCalls [] panels"

section \<open>The request client: \<^verbatim>\<open>AIClient\<close> and the message formats\<close>

text \<open>
  A message of the conversation (utils/messageUtils.js); an absent property is \<open>None\<close>.
  \<open>generateMessageId()\<close> and \<open>Date.now()\<close> are not functions of the program's state: the
  pair they return for a new message is an input, a \<open>stamp\<close>.
\<close>

record stamp =
  stamp_id :: string
  stamp_now :: nat

record message =
  msg_id :: string
  msg_role :: string
  msg_content :: "string option"
  msg_attachments :: "json list option"
  msg_toolCalls :: "tool_call list option"
  msg_results :: "tool_call_result list option"
  msg_timestamp :: nat
  msg_isStreaming :: "bool option"
  msg_isError :: "bool option"

definition createUserMessage :: "stamp \<Rightarrow> string \<Rightarrow> json list \<Rightarrow> message" where
  "createUserMessage st content attachments =
     \<lparr>msg_id = stamp_id st, msg_role = ''user'', msg_content = Some content,
      msg_attachments = Some attachments, msg_toolCalls = None, msg_results = None,
      msg_timestamp = stamp_now st, msg_isStreaming = None, msg_isError = None\<rparr>"

definition createStreamingMessage :: "stamp \<Rightarrow> message" where
  "createStreamingMessage st =
     \<lparr>msg_id = stamp_id st, msg_role = ''assistant'', msg_content = Some [],
      msg_attachments = None, msg_toolCalls = None, msg_results = None,
      msg_timestamp = stamp_now st, msg_isStreaming = Some True, msg_isError = None\<rparr>"

text \<open>
  The messages and tools of a request body; its other fields (\<open>model\<close>, \<open>provider\<close>,
  \<open>temperature\<close>, \<open>max_tokens\<close>, \<open>stream\<close>) are configuration and are left out. A tool is
  \<open>{type: 'function', function: {name, description, parameters}}\<close>.
\<close>

record api_message =
  api_role :: string
  api_content :: "string option"
  api_name :: "string option"
  api_tool_call_id :: "string option"
  api_tool_calls :: "tool_call list option"

record api_tool =
  api_tool_name :: string
  api_tool_description :: string
  api_tool_parameters :: json

record request =
  req_messages :: "api_message list"
  req_tools :: "api_tool list option"

definition formatMessagesForAPI :: "message list \<Rightarrow> api_message list" where
  "formatMessagesForAPI msgs =
     map (\<lambda>msg. \<lparr>api_role = msg_role msg, api_content = msg_content msg, api_name = None,
                 api_tool_call_id = None, api_tool_calls = None\<rparr>) msgs"

definition formatToolsForAPI :: "aggregated_tool list \<Rightarrow> api_tool list" where
  "formatToolsForAPI tools =
     map (\<lambda>tool. \<lparr>api_tool_name = agg_name tool, api_tool_description = agg_description tool,
                  api_tool_parameters =
                    (case agg_inputSchema tool of
                       None \<Rightarrow> JObject [(''type'', JString ''object''), (''properties'', JObject [])]
                     | Some schema \<Rightarrow> schema)\<rparr>) tools"

text \<open>
  The content of a tool message: \<open>JSON.stringify(result.success ? result.result : {error: result.error})\<close>.
\<close>

definition formatToolResultsAsMessages_content :: "environment \<Rightarrow> tool_call_result \<Rightarrow> string option" where
  "formatToolResultsAsMessages_content env r =
     (if success r
      then map_option (JSON_stringify env) (tr_result r)
      else Some (JSON_stringify env
                   (JObject (case tr_error r of None \<Rightarrow> [] | Some e \<Rightarrow> [(''error'', JString e)]))))"

definition formatToolResultsAsMessages :: "environment \<Rightarrow> tool_call_result list \<Rightarrow> api_message list" where
  "formatToolResultsAsMessages env results =
     map (\<lambda>r. \<lparr>api_role = ''tool'', api_content = formatToolResultsAsMessages_content env r,
               api_name = Some (call_name r), api_tool_call_id = Some (toolCallId r),
               api_tool_calls = None\<rparr>) results"

section \<open>Conversation controller: the hook \<^verbatim>\<open>useChat\<close>\<close>

text \<open>
  A \<open>streamChat\<close> call that has not returned is \<open>pending\<close>: it holds the callbacks of the
  function that awaits it, \<open>sendMessage\<close> (first pass, with the \<open>apiMessages\<close> its
  \<open>onDone\<close> hands to \<open>handleToolCalls\<close>) or \<open>handleToolCalls\<close> (second pass).
\<close>

datatype pending = FirstPass "api_message list" | SecondPass

text \<open>
  The state the hook and the two singletons it drives keep: the React state
  (\<open>messages\<close>, \<open>isLoading\<close>, \<open>error\<close>), the refs (\<open>streamingMessageRef\<close>,
  \<open>streamParserRef\<close>), the client (\<open>abortController\<close> is set or null; \<open>inflight\<close> is its
  pending call, \<open>requests\<close> the bodies it has posted), the orchestrator's \<open>toolCache\<close> and
  the store's panels.
\<close>

record controller =
  messages :: "message list"
  isLoading :: bool
  chat_error :: "string option"
  streamingMessageRef :: "message option"
  streamParser :: stream_parser
  abortController :: bool
  inflight :: "pending option"
  requests :: "request list"
  toolCache :: tool_cache
  panels :: "panel_instance list"

definition addMessage :: "message \<Rightarrow> controller \<Rightarrow> controller" where
  "addMessage msg s = s\<lparr>messages := messages s @ [msg]\<rparr>"

text \<open>\<open>updateLastMessage(updates)\<close>: the updates are a function on the last message.\<close>

definition updateLastMessage :: "(message \<Rightarrow> message) \<Rightarrow> controller \<Rightarrow> controller" where
  "updateLastMessage updates s =
     (if messages s = [] then s
      else s\<lparr>messages := butlast (messages s) @ [updates (last (messages s))]\<rparr>)"

definition clearMessages :: "controller \<Rightarrow> controller" where
  "clearMessages s = s\<lparr>messages := [], chat_error := None\<rparr>"

text \<open>
  The code after \<open>await aiClient.streamChat(...)\<close> in the function that awaits the call:
  the \<open>finally\<close> block of \<open>sendMessage\<close> (lines 767-770) or of \<open>handleToolCalls\<close>
  (lines 860-862).
\<close>

definition after_streamChat :: "pending \<Rightarrow> controller \<Rightarrow> controller" where
  "after_streamChat awaited s =
     (case awaited of
        FirstPass apiMessages \<Rightarrow> s\<lparr>isLoading := False, streamingMessageRef := None\<rparr>
      | SecondPass \<Rightarrow> s\<lparr>isLoading := False\<rparr>)"

text \<open>
  \<open>aiClient.abort()\<close>. The aborted call, if one is pending, ends in an AbortError, which
  \<open>streamChat\<close> catches and returns from without a callback (lines 487-490); the function
  that awaits it then runs its \<open>finally\<close> block. \<open>abort\<close> returns that pending call.
\<close>

definition abort :: "controller \<Rightarrow> pending option \<times> controller" where
  "abort s =
     (if abortController s then (inflight s, s\<lparr>abortController := False, inflight := None\<rparr>)
      else (None, s))"

definition run_cancelled :: "pending option \<Rightarrow> controller \<Rightarrow> controller" where
  "run_cancelled cancelled s = (case cancelled of None \<Rightarrow> s | Some awaited \<Rightarrow> after_streamChat awaited s)"

text \<open>
  The start of \<open>streamChat\<close> (lines 422-442): it aborts the pending call, installs a new
  AbortController and posts the request.
\<close>

definition streamChat :: "pending \<Rightarrow> request \<Rightarrow> controller \<Rightarrow> controller" where
  "streamChat callbacks body s =
     (let (cancelled, s1) = abort s;
          s2 = s1\<lparr>abortController := True, requests := requests s1 @ [body], inflight := Some callbacks\<rparr>
      in run_cancelled cancelled s2)"

text \<open>
  JavaScript's \<open>trim\<close>. A \<open>char\<close> stands for a code unit below 256; the white space and
  line terminators among them are TAB, LF, VT, FF, CR, SP and NBSP.
\<close>

definition is_white_space :: "char \<Rightarrow> bool" where
  "is_white_space c = (c \<in> set [CHR 0x09, CHR 0x0A, CHR 0x0B, CHR 0x0C, CHR 0x0D, CHR 0x20, CHR 0xA0])"

definition trim :: "string \<Rightarrow> string" where
  "trim s = rev (dropWhile is_white_space (rev (dropWhile is_white_space s)))"

text \<open>
  \<open>sendMessage\<close> up to the posted request (lines 671-716). \<open>closure_messages\<close> is the
  \<open>messages\<close> array the callback closed over; \<open>u\<close> and \<open>p\<close> stamp the user message and
  the placeholder, \<open>now\<close> is the \<open>Date.now()\<close> of \<open>buildContext\<close>. The aggregation
  and the context building it awaits on the way are taken as one step with it.
\<close>

definition sendMessage ::
  "environment \<Rightarrow> message list \<Rightarrow> string \<Rightarrow> json list \<Rightarrow> stamp \<Rightarrow> stamp \<Rightarrow> nat \<Rightarrow> controller \<Rightarrow> controller" where
  "sendMessage env closure_messages content attachments u p now s =
     (if trim content = [] \<and> length attachments = 0 then s
      else
        (let s1 = s\<lparr>chat_error := None, isLoading := True\<rparr>;
             userMessage = createUserMessage u content attachments;
             s2 = addMessage userMessage s1;
             streamingMessage = createStreamingMessage p;
             s3 = (addMessage streamingMessage s2)\<lparr>streamingMessageRef := Some streamingMessage\<rparr>;
             s4 = s3\<lparr>streamParser := reset (streamParser s3)\<rparr>;
             visiblePanels = getVisiblePanels (panels s4);
             (cache, tools) = collectTools env (toolCache s4) visiblePanels;
             s5 = s4\<lparr>toolCache := cache\<rparr>;
             context = buildContext env now (panels s5);
             systemPrompt = generateSystemPrompt env context tools;
             apiMessages =
               [\<lparr>api_role = ''system'', api_content = Some systemPrompt, api_name = None,
                 api_tool_call_id = None, api_tool_calls = None\<rparr>]
               @ formatMessagesForAPI (filter (\<lambda>m. msg_role m \<noteq> ''error'') closure_messages)
               @ [\<lparr>api_role = ''user'', api_content = Some content, api_name = None,
                   api_tool_call_id = None, api_tool_calls = None\<rparr>];
             apiTools = (if 0 < length tools then Some (formatToolsForAPI tools) else None)
         in streamChat (FirstPass apiMessages) \<lparr>req_messages = apiMessages, req_tools = apiTools\<rparr> s5))"

text \<open>
  The callbacks of the first pass (lines 717-758). In the source the tool calls of a
  message share their entries with the parser's buffer; here they are values. The two
  differ only after a chunk whose callback throws once the parser has extended an entry,
  and until the next chunk with tool calls or the end of the stream writes the entries
  again.
\<close>

definition sendMessage_onChunk :: "chunk \<Rightarrow> controller \<Rightarrow> controller" where
  "sendMessage_onChunk c s =
     (case processChunk (streamParser s) c of
        Inl (e, parser) \<Rightarrow> s\<lparr>streamParser := parser\<rparr>
      | Inr (parser, result) \<Rightarrow>
          (let s1 = s\<lparr>streamParser := parser\<rparr>;
               s2 = (case acc_content result of
                       None \<Rightarrow> s1
                     | Some content \<Rightarrow>
                         updateLastMessage
                           (\<lambda>m. m\<lparr>msg_content := Some content, msg_isStreaming := Some True\<rparr>) s1)
           in case acc_toolCalls result of
                None \<Rightarrow> s2
              | Some toolCalls \<Rightarrow>
                  updateLastMessage
                    (\<lambda>m. m\<lparr>msg_toolCalls := Some toolCalls, msg_isStreaming := Some True\<rparr>) s2))"

definition onError :: "string \<Rightarrow> controller \<Rightarrow> controller" where
  "onError message s =
     updateLastMessage
       (\<lambda>m. m\<lparr>msg_content := Some (''Error: '' @ message), msg_isStreaming := Some False,
               msg_isError := Some True\<rparr>)
       (s\<lparr>chat_error := Some message\<rparr>)"

text \<open>
  \<open>handleToolCalls\<close> (lines 776-863) in its two parts: up to the awaited
  \<open>processToolCalls\<close>, and after it. \<open>parsedToolCalls\<close> adds the property
  \<open>parsedArguments\<close> to each call and keeps \<open>arguments\<close>, the only one of the two that
  \<open>processToolCalls\<close> reads.
\<close>

record parsed_tool_call = tool_call +
  parsedArguments :: json

definition parse_tool_call :: "environment \<Rightarrow> tool_call \<Rightarrow> parsed_tool_call" where
  "parse_tool_call env tc =
     tool_call.extend tc
       (parsed_tool_call.fields
          (case JSON_parse env (tc_arguments tc) of None \<Rightarrow> JObject [] | Some args \<Rightarrow> args))"

definition handleToolCalls_execute ::
  "environment \<Rightarrow> tool_call list \<Rightarrow> controller \<Rightarrow>
     (js_error \<times> controller) + (tool_call_result list \<times> controller)" where
  "handleToolCalls_execute env toolCalls s =
     (let parsedToolCalls = map (parse_tool_call env) toolCalls
      in case processToolCalls env (toolCache s) (panels s) (map tool_call.truncate parsedToolCalls) of
           Inl (e, panels') \<Rightarrow> Inl (e, s\<lparr>panels := panels'\<rparr>)
         | Inr (results, panels') \<Rightarrow> Inr (results, s\<lparr>panels := panels'\<rparr>))"

definition handleToolCalls_continue ::
  "environment \<Rightarrow> tool_call list \<Rightarrow> api_message list \<Rightarrow> tool_call_result list \<Rightarrow> stamp \<Rightarrow> stamp \<Rightarrow>
     controller \<Rightarrow> controller" where
  "handleToolCalls_continue env toolCalls previousMessages results t p s =
     (let toolResultMessage =
            \<lparr>msg_id = stamp_id t, msg_role = ''tool_results'', msg_content = None,
             msg_attachments = None, msg_toolCalls = None, msg_results = Some results,
             msg_timestamp = stamp_now t, msg_isStreaming = None, msg_isError = None\<rparr>;
          s1 = addMessage toolResultMessage s;
          s2 = s1\<lparr>isLoading := True\<rparr>;
          streamingMessage = createStreamingMessage p;
          s3 = addMessage streamingMessage s2;
          s4 = s3\<lparr>streamParser := reset (streamParser s3)\<rparr>;
          messagesWithToolResults =
            previousMessages
            @ [\<lparr>api_role = ''assistant'', api_content = None, api_name = None,
                api_tool_call_id = None, api_tool_calls = Some toolCalls\<rparr>]
            @ formatToolResultsAsMessages env results
      in streamChat SecondPass \<lparr>req_messages = messagesWithToolResults, req_tools = None\<rparr> s4)"

text \<open>
  \<open>onDone\<close> of the first pass. \<open>streamChat\<close> calls it without awaiting it and returns, so
  when the result has tool calls the steps run in this order: \<open>onDone\<close> and
  \<open>handleToolCalls\<close> up to the first \<open>await\<close> inside \<open>processToolCalls\<close>; the \<open>finally\<close>
  block of \<open>sendMessage\<close>, queued when \<open>streamChat\<close> returned; the rest of
  \<open>handleToolCalls\<close>, queued when \<open>processToolCalls\<close> has returned. The tool executions
  write the store's panels only, the \<open>finally\<close> block writes \<open>isLoading\<close> and the ref
  only. When \<open>processToolCalls\<close> throws, \<open>handleToolCalls\<close> and \<open>onDone\<close> are rejected
  with its exception, which no code catches, and the rest of \<open>handleToolCalls\<close> never
  runs.
\<close>

definition sendMessage_onDone ::
  "environment \<Rightarrow> api_message list \<Rightarrow> stamp \<Rightarrow> stamp \<Rightarrow> controller \<Rightarrow> js_error option \<times> controller" where
  "sendMessage_onDone env apiMessages t p s =
     (let finalResult = getResult (streamParser s);
          s1 = updateLastMessage
                 (\<lambda>m. m\<lparr>msg_content := Some (result_content finalResult),
                         msg_toolCalls := result_toolCalls finalResult,
                         msg_isStreaming := Some False\<rparr>) s;
          s2 = s1\<lparr>inflight := None\<rparr>
      in case result_toolCalls finalResult of
           None \<Rightarrow> (None, after_streamChat (FirstPass apiMessages) s2)
         | Some toolCalls \<Rightarrow>
             (case handleToolCalls_execute env toolCalls s2 of
                Inl (e, s3) \<Rightarrow> (Some e, after_streamChat (FirstPass apiMessages) s3)
              | Inr (results, s3) \<Rightarrow>
                  (None, handleToolCalls_continue env toolCalls apiMessages results t p
                           (after_streamChat (FirstPass apiMessages) s3))))"

text \<open>The callbacks of the second pass (lines 833-856).\<close>

definition handleToolCalls_onChunk :: "chunk \<Rightarrow> controller \<Rightarrow> controller" where
  "handleToolCalls_onChunk c s =
     (case processChunk (streamParser s) c of
        Inl (e, parser) \<Rightarrow> s\<lparr>streamParser := parser\<rparr>
      | Inr (parser, result) \<Rightarrow>
          (let s1 = s\<lparr>streamParser := parser\<rparr>
           in case acc_content result of
                None \<Rightarrow> s1
              | Some content \<Rightarrow>
                  updateLastMessage
                    (\<lambda>m. m\<lparr>msg_content := Some content, msg_isStreaming := Some True\<rparr>) s1))"

definition handleToolCalls_onDone :: "controller \<Rightarrow> controller" where
  "handleToolCalls_onDone s =
     (let finalResult = getResult (streamParser s)
      in updateLastMessage
           (\<lambda>m. m\<lparr>msg_content := Some (result_content finalResult), msg_isStreaming := Some False\<rparr>) s)"

definition stopGeneration :: "controller \<Rightarrow> controller" where
  "stopGeneration s =
     (let (cancelled, s1) = abort s;
          s2 = s1\<lparr>isLoading := False\<rparr>;
          s3 = (if streamingMessageRef s2 \<noteq> None
                then updateLastMessage (\<lambda>m. m\<lparr>msg_isStreaming := Some False\<rparr>) s2
                else s2)
      in run_cancelled cancelled s3)"

text \<open>\<open>messages.findLastIndex(m => m.role === 'user')\<close>; \<open>None\<close> is its \<open>-1\<close>.\<close>

fun findLastIndex :: "('a \<Rightarrow> bool) \<Rightarrow> 'a list \<Rightarrow> nat option" where
  "findLastIndex P [] = None"
| "findLastIndex P (x # xs) =
     (case findLastIndex P xs of
        Some i \<Rightarrow> Some (Suc i)
      | None \<Rightarrow> if P x then Some 0 else None)"

text \<open>
  \<open>regenerateLastResponse\<close> calls the \<open>sendMessage\<close> of its own render, whose \<open>messages\<close>
  are the list before the truncation. An absent \<open>attachments\<close> takes the default \<open>[]\<close>.
  For a last user message without a content, \<open>sendMessage\<close> is called with \<open>undefined\<close>
  and throws a TypeError at \<open>content.trim()\<close> (line 672), after the truncation; the
  exception leaves \<open>regenerateLastResponse\<close>.
\<close>

definition regenerateLastResponse ::
  "environment \<Rightarrow> stamp \<Rightarrow> stamp \<Rightarrow> nat \<Rightarrow> controller \<Rightarrow> (js_error \<times> controller) + controller" where
  "regenerateLastResponse env u p now s =
     (case findLastIndex (\<lambda>m. msg_role m = ''user'') (messages s) of
        None \<Rightarrow> Inr s
      | Some lastUserIndex \<Rightarrow>
          (let lastUserMessage = messages s ! lastUserIndex;
               s1 = s\<lparr>messages := take lastUserIndex (messages s)\<rparr>
           in case msg_content lastUserMessage of
                None \<Rightarrow> Inl (TypeError, s1)
              | Some content \<Rightarrow>
                  Inr (sendMessage env (messages s) content
                         (case msg_attachments lastUserMessage of None \<Rightarrow> [] | Some a \<Rightarrow> a)
                         u p now s1)))"

text \<open>
  What can happen to the controller: the operations the hook returns, called by the user
  interface, and the three ways a pending call reports back. A report without a pending
  call does not happen and leaves the state as it is.
\<close>

datatype event =
    Send string "json list" stamp stamp nat
  | Regenerate stamp stamp nat
  | Clear
  | Stop
  | Chunk chunk
  | Done stamp stamp
  | Failed string

fun step :: "environment \<Rightarrow> event \<Rightarrow> controller \<Rightarrow> controller" where
  "step env (Send content attachments u p now) s = sendMessage env (messages s) content attachments u p now s"
| "step env (Regenerate u p now) s =
     (case regenerateLastResponse env u p now s of Inl (e, s') \<Rightarrow> s' | Inr s' \<Rightarrow> s')"
| "step env Clear s = clearMessages s"
| "step env Stop s = stopGeneration s"
| "step env (Chunk c) s =
     (case inflight s of
        None \<Rightarrow> s
      | Some (FirstPass apiMessages) \<Rightarrow> sendMessage_onChunk c s
      | Some SecondPass \<Rightarrow> handleToolCalls_onChunk c s)"
| "step env (Done t p) s =
     (case inflight s of
        None \<Rightarrow> s
      | Some (FirstPass apiMessages) \<Rightarrow> snd (sendMessage_onDone env apiMessages t p s)
      | Some SecondPass \<Rightarrow> after_streamChat SecondPass ((handleToolCalls_onDone s)\<lparr>inflight := None\<rparr>))"
| "step env (Failed message) s =
     (case inflight s of
        None \<Rightarrow> s
      | Some awaited \<Rightarrow> after_streamChat awaited ((onError message s)\<lparr>inflight := None\<rparr>))"

fun run :: "environment \<Rightarrow> event list \<Rightarrow> controller \<Rightarrow> controller" where
  "run env [] s = s"
| "run env (e # es) s = run env es (step env e s)"

section \<open>Definitions the statements use\<close>

subsection \<open>Stream decoder\<close>

text \<open>A chunk that carries at most a content fragment.\<close>

definition content_only :: "chunk \<Rightarrow> bool" where
  "content_only c =
     (chunk_tool_calls c = None \<and> chunk_tool_call_start c = None \<and>
      chunk_tool_input_delta c = None \<and> chunk_finish_reason c = None)"

definition content_chunk :: "string \<Rightarrow> chunk" where
  "content_chunk s =
     \<lparr>chunk_type = None, chunk_content = Some s, chunk_tool_calls = None,
      chunk_tool_call_start = None, chunk_tool_input_delta = None, chunk_finish_reason = None\<rparr>"

text \<open>The name stored under an index; an index without an entry stores no name.\<close>

definition stored_name :: "(nat \<times> tool_call) list \<Rightarrow> nat \<Rightarrow> string" where
  "stored_name buf i = (case map_of buf i of None \<Rightarrow> [] | Some e \<Rightarrow> tc_name e)"

text \<open>
  The merge rule in the specification's words: a fragment is accepted only if the stored
  name is empty, or the fragment differs from it and is at least as long.
\<close>

definition merge_rule :: "string \<Rightarrow> string \<Rightarrow> string" where
  "merge_rule stored fragment =
     (if stored = [] \<or> (fragment \<noteq> stored \<and> length stored \<le> length fragment)
      then fragment else stored)"

text \<open>A chunk with one indexed fragment that carries a function name only.\<close>

definition name_chunk :: "nat \<Rightarrow> string \<Rightarrow> chunk" where
  "name_chunk i n =
     \<lparr>chunk_type = None, chunk_content = None,
      chunk_tool_calls = Some [\<lparr>frag_index = i, frag_id = None,
         frag_function = Some \<lparr>fragment_name = Some n, fragment_arguments = None\<rparr>\<rparr>],
      chunk_tool_call_start = None, chunk_tool_input_delta = None, chunk_finish_reason = None\<rparr>"

text \<open>
  The alternate encoding in the specification's words, on the list of tool calls in index
  order: \<open>tool_call_start\<close> allocates a new entry at the next index, \<open>tool_input_delta\<close>
  appends to the arguments of the most recently allocated entry and to no other.
\<close>

definition alt_start :: "tool_call list \<Rightarrow> chunk \<Rightarrow> tool_call list" where
  "alt_start tcs c =
     (case chunk_tool_call_start c of
        None \<Rightarrow> tcs
      | Some st \<Rightarrow> tcs @ [\<lparr>tc_id = start_id st, tc_name = start_name st, tc_arguments = []\<rparr>])"

definition alt_delta :: "tool_call list \<Rightarrow> chunk \<Rightarrow> tool_call list" where
  "alt_delta tcs c =
     (case chunk_tool_input_delta c of
        None \<Rightarrow> tcs
      | Some d \<Rightarrow>
          if tcs = [] then []
          else butlast tcs @ [(last tcs)\<lparr>tc_arguments := tc_arguments (last tcs) @ d\<rparr>])"

definition alt_step :: "tool_call list \<Rightarrow> chunk \<Rightarrow> tool_call list" where
  "alt_step tcs c = alt_delta (alt_start tcs c) c"

text \<open>The buffer that stores a list of tool calls under the indices \<open>0, 1, 2, ...\<close>.\<close>

definition indexed :: "'a list \<Rightarrow> (nat \<times> 'a) list" where
  "indexed xs = zip [0..<length xs] xs"

definition start_chunk :: "string \<Rightarrow> string \<Rightarrow> chunk" where
  "start_chunk i n =
     \<lparr>chunk_type = None, chunk_content = None, chunk_tool_calls = None,
      chunk_tool_call_start = Some \<lparr>start_id = i, start_name = n\<rparr>,
      chunk_tool_input_delta = None, chunk_finish_reason = None\<rparr>"

definition delta_chunk :: "string \<Rightarrow> chunk" where
  "delta_chunk d =
     \<lparr>chunk_type = None, chunk_content = None, chunk_tool_calls = None,
      chunk_tool_call_start = None, chunk_tool_input_delta = Some d, chunk_finish_reason = None\<rparr>"

subsection \<open>Orchestrator\<close>

text \<open>
  What one panel contributes to the aggregated list, in the specification's words: every
  tool its type lists for its state, named \<open>{panelTypeId}_{name}\<close>, with the panel's
  instance id, type id and title and with the original name; nothing when the panel type
  is not registered, lists no tools or throws.
\<close>

definition panel_tools :: "environment \<Rightarrow> panel_instance \<Rightarrow> aggregated_tool list" where
  "panel_tools env panel =
     (case getPanelDefinition env (panelTypeId panel) of
        None \<Rightarrow> []
      | Some defn \<Rightarrow>
          (case getMCPTools defn of
             None \<Rightarrow> []
           | Some get \<Rightarrow>
               (case get (panel_state panel) of
                  Inl message \<Rightarrow> []
                | Inr tools \<Rightarrow>
                    map (\<lambda>tool.
                          \<lparr>agg_name = panelTypeId panel @ ''_'' @ tool_name tool,
                           agg_description = tool_description tool,
                           agg_inputSchema = inputSchema tool,
                           agg_panelId = panel_id panel,
                           agg_panelTypeId = panelTypeId panel,
                           agg_panelTitle = panel_title panel,
                           originalName = tool_name tool\<rparr>) tools)))"

text \<open>
  The system prompt in the specification's words: one section per observed panel, a
  heading and the panel's own context dump cut at 2000 characters (string data as it is,
  other data that is not falsy as pretty-printed JSON), then the tool catalog.
\<close>

definition context_lines :: "environment \<Rightarrow> llm_context option \<Rightarrow> string list" where
  "context_lines env context =
     (case context of
        None \<Rightarrow> []
      | Some ctx \<Rightarrow>
          if context_kind ctx = ''empty'' then [''- Empty or minimal content'']
          else (case context_payload ctx of
                  None \<Rightarrow> []
                | Some (JString d) \<Rightarrow> [''```'', take 2000 d, ''```'']
                | Some d \<Rightarrow>
                    if js_truthy d
                    then [''```json'', take 2000 (JSON_stringify_indent env d), ''```'']
                    else []))"

definition panel_section :: "environment \<Rightarrow> observed_panel \<Rightarrow> string list" where
  "panel_section env panel =
     [''### '' @ op_panelTitle panel @ '' ('' @ op_panelType panel @ '')'']
     @ context_lines env (op_context panel) @ ['''']"

definition observed_section :: "environment \<Rightarrow> observed_panel list \<Rightarrow> string list" where
  "observed_section env ps =
     (if ps = [] then []
      else [''## Currently Observed Panels'',
            ''The following panels are being observed (you can see their content):'',
            '''']
           @ concat (map (panel_section env) ps))"

definition tool_lines :: "aggregated_tool \<Rightarrow> string list" where
  "tool_lines tool =
     [''- **'' @ agg_name tool @ ''**: '' @ agg_description tool]
     @ (if agg_panelTitle tool = [] then [] else [''  - Source: '' @ agg_panelTitle tool])"

definition tools_section :: "aggregated_tool list \<Rightarrow> string list" where
  "tools_section tools =
     (if tools = [] then []
      else [''## Available Tools'', ''You have access to the following tools:'', '''']
           @ concat (map tool_lines tools) @ [''''])"

subsection \<open>An example workspace\<close>

text \<open>
  The inputs of the closed statements: a registry with one panel type, a file manager
  with the tools \<open>list_files\<close> and \<open>read_file\<close> (the second one throws), one panel of that
  type, and a host whose \<open>JSON.parse\<close> accepts the text \<open>{}\<close> and throws on \<open>{\<close>, as the
  built-in does; the examples parse no other text.
\<close>

definition workspace_definition :: panel_definition where
  "workspace_definition =
     \<lparr>getMCPTools = Some (\<lambda>state.
        Inr [\<lparr>tool_name = ''list_files'', tool_description = ''List all files'', inputSchema = None\<rparr>,
             \<lparr>tool_name = ''read_file'', tool_description = ''Read a file'', inputSchema = None\<rparr>]),
      executeMCPTool = Some (\<lambda>name args state.
        if name = ''list_files''
        then ([], Inr (JObject [(''files'', JArray []), (''count'', JNumber 0)]))
        else ([], Inl (ErrorObject ''File content not available''))),
      getLLMContext = Some (\<lambda>state.
        Inr (Some \<lparr>context_kind = ''workspace'',
                   context_payload = Some (JObject [(''fileCount'', JNumber 0)])\<rparr>))\<rparr>"

definition example_env :: environment where
  "example_env =
     \<lparr>getPanelDefinition = (\<lambda>t. if t = ''workspace'' then Some workspace_definition else None),
      JSON_parse = (\<lambda>s. if s = ''{}'' then Some (JObject []) else None),
      JSON_stringify = (\<lambda>v. ''{}''),
      JSON_stringify_indent = (\<lambda>v. ''{}'')\<rparr>"

definition example_panel :: panel_instance where
  "example_panel =
     \<lparr>panel_id = ''panel-1'', panelTypeId = ''workspace'', panel_title = ''Workspace'',
      panel_mode = ''flexible'', panel_state = [], panel_order = 0, isAIObserving = False\<rparr>"

definition example_cache :: tool_cache where
  "example_cache = fst (collectTools example_env Map.empty [example_panel])"

definition text_panel :: "string \<Rightarrow> string \<Rightarrow> observed_panel" where
  "text_panel title d =
     \<lparr>op_panelId = title, op_panelType = ''notes'', op_panelTitle = title,
      op_context = Some \<lparr>context_kind = ''text'', context_payload = Some (JString d)\<rparr>\<rparr>"

subsection \<open>Example conversations\<close>

definition idle :: controller where
  "idle =
     \<lparr>messages = [], isLoading = False, chat_error = None, streamingMessageRef = None,
      streamParser = new_parser, abortController = False, inflight = None, requests = [],
      toolCache = Map.empty, panels = [example_panel]\<rparr>"

definition stamp_of :: "nat \<Rightarrow> stamp" where
  "stamp_of n = \<lparr>stamp_id = ''msg-'' @ replicate n CHR ''x'', stamp_now = n\<rparr>"

text \<open>A chunk with one indexed fragment that carries a whole tool call.\<close>

definition tool_call_chunk :: "nat \<Rightarrow> string \<Rightarrow> string \<Rightarrow> string \<Rightarrow> chunk" where
  "tool_call_chunk i ident name args =
     \<lparr>chunk_type = None, chunk_content = None,
      chunk_tool_calls = Some [\<lparr>frag_index = i, frag_id = Some ident,
         frag_function = Some \<lparr>fragment_name = Some name, fragment_arguments = Some args\<rparr>\<rparr>],
      chunk_tool_call_start = None, chunk_tool_input_delta = None, chunk_finish_reason = None\<rparr>"

text \<open>
  The user asks for the files; the model answers with the tool call
  \<open>workspace_list_files({})\<close>; the stream ends, the tool runs and the second request is
  posted; its stream delivers a first content fragment.
\<close>

definition second_pass_streaming :: controller where
  "second_pass_streaming =
     run example_env
       [Send ''List my files'' [] (stamp_of 1) (stamp_of 2) 3,
        Chunk (tool_call_chunk 0 ''call_1'' ''workspace_list_files'' ''{}''),
        Done (stamp_of 4) (stamp_of 5),
        Chunk (content_chunk ''You have'')]
       idle"

text \<open>
  The same question; the stream delivers two tool calls, the first with the argument text
  \<open>{\<close>, which is not JSON, the second with \<open>{}\<close>.
\<close>

definition malformed_streaming :: controller where
  "malformed_streaming =
     run example_env
       [Send ''List my files'' [] (stamp_of 1) (stamp_of 2) 3,
        Chunk (tool_call_chunk 0 ''call_1'' ''workspace_list_files'' ''{''),
        Chunk (tool_call_chunk 1 ''call_2'' ''workspace_list_files'' ''{}'')]
       idle"

text \<open>
  The user says \<open>Hi\<close>; the stream delivers the content \<open>Hello\<close> and ends, without a tool
  call.
\<close>

definition answered :: controller where
  "answered =
     run example_env
       [Send ''Hi'' [] (stamp_of 1) (stamp_of 2) 3,
        Chunk (content_chunk ''Hello''),
        Done (stamp_of 4) (stamp_of 5)]
       idle"

text \<open>
  A second turn after the answered one: the user says \<open>More\<close> and the stream delivers
  \<open>Su\<close>; in \<open>streaming\<close> the request is still pending, in \<open>two_turns\<close> the stream has
  delivered \<open>Sure\<close> and ended.
\<close>

definition streaming :: controller where
  "streaming =
     run example_env
       [Send ''More'' [] (stamp_of 6) (stamp_of 7) 8,
        Chunk (content_chunk ''Su'')]
       answered"

definition two_turns :: controller where
  "two_turns =
     run example_env
       [Send ''More'' [] (stamp_of 6) (stamp_of 7) 8,
        Chunk (content_chunk ''Sure''),
        Done (stamp_of 9) (stamp_of 10)]
       answered"

subsection \<open>Removing messages\<close>

text \<open>
  An operation removes no message when every message of the list before it is still in
  its place in the list after it: the list is at least as long, each message has kept its
  id, and each but the last, which the stream callbacks update in place, is unchanged.
\<close>

definition keeps_messages :: "message list \<Rightarrow> message list \<Rightarrow> bool" where
  "keeps_messages before after =
     (length before \<le> length after \<and>
      map msg_id (take (length before) after) = map msg_id before \<and>
      take (length before - 1) after = butlast before)"

subsection \<open>An executor that rejects without a reason\<close>



section \<open>Properties\<close>

subsection \<open>Stream decoder\<close>


lemma contentBuffer_handle_content:
  "contentBuffer (fst (handle_content c pr)) = contentBuffer (fst pr) @ or_empty (chunk_content c)"
  by (cases pr; cases "chunk_content c") (simp_all add: handle_content_def truthy_def or_empty_def)

lemma contentBuffer_handle_tool_calls:
  "contentBuffer (fst (handle_tool_calls c pr)) = contentBuffer (fst pr)"
  by (cases pr; cases "chunk_tool_calls c") (simp_all add: handle_tool_calls_def Let_def)

lemma contentBuffer_handle_tool_call_start:
  "contentBuffer (fst (handle_tool_call_start c pr)) = contentBuffer (fst pr)"
  by (cases pr; cases "chunk_tool_call_start c") (simp_all add: handle_tool_call_start_def Let_def)

lemma contentBuffer_handle_tool_input_delta:
  "handle_tool_input_delta c pr = Inr pr' \<Longrightarrow> contentBuffer (fst pr') = contentBuffer (fst pr)"
  by (cases pr) (auto simp: handle_tool_input_delta_def Let_def split: if_splits option.splits)

lemma contentBuffer_handle_finish_reason:
  "contentBuffer (fst (handle_finish_reason c pr)) = contentBuffer (fst pr)"
  by (cases pr) (simp add: handle_finish_reason_def)

lemma contentBuffer_processChunk:
  "contentBuffer (case processChunk p c of Inl (e, p') \<Rightarrow> p' | Inr (p', r) \<Rightarrow> p') =
   contentBuffer p @ or_empty (chunk_content c)"
proof -
  define pr where "pr = handle_tool_call_start c (handle_tool_calls c (handle_content c
      (p, \<lparr>res_type = chunk_type c, delta_content = None, acc_content = None,
                     acc_toolCalls = None, res_finishReason = None\<rparr>)))"
  have pr: "contentBuffer (fst pr) = contentBuffer p @ or_empty (chunk_content c)"
    by (simp add: pr_def contentBuffer_handle_tool_call_start contentBuffer_handle_tool_calls
          contentBuffer_handle_content)
  show ?thesis
  proof (cases "handle_tool_input_delta c pr")
    case (Inl e)
    then show ?thesis using pr by (simp add: processChunk_def Let_def pr_def[symmetric])
  next
    case (Inr pr')
    from contentBuffer_handle_tool_input_delta[OF this] pr
    have "contentBuffer (fst (handle_finish_reason c pr')) = contentBuffer p @ or_empty (chunk_content c)"
      by (simp add: contentBuffer_handle_finish_reason)
    with Inr show ?thesis
      by (cases "handle_finish_reason c pr'") (simp add: processChunk_def Let_def pr_def[symmetric])
  qed
qed

lemma contentBuffer_processChunks:
  "contentBuffer (fst (processChunks p cs)) = contentBuffer p @ concat (map (or_empty \<circ> chunk_content) cs)"
proof (induction cs arbitrary: p)
  case Nil
  then show ?case by simp
next
  case (Cons c cs)
  show ?case
  proof (cases "processChunk p c")
    case (Inl ep)
    obtain e p' where ep: "ep = (e, p')" by (cases ep)
    obtain q es where q: "processChunks p' cs = (q, es)" by (cases "processChunks p' cs")
    from Inl ep contentBuffer_processChunk[of p c]
    have "contentBuffer p' = contentBuffer p @ or_empty (chunk_content c)" by simp
    with Cons.IH[of p'] q Inl ep show ?thesis by simp
  next
    case (Inr pr)
    obtain p' r where pr: "pr = (p', r)" by (cases pr)
    from Inr pr contentBuffer_processChunk[of p c]
    have "contentBuffer p' = contentBuffer p @ or_empty (chunk_content c)" by simp
    with Cons.IH[of p'] Inr pr show ?thesis by simp
  qed
qed

lemma processChunk_content_only:
  "content_only c \<Longrightarrow> \<exists>p' r. processChunk p c = Inr (p', r)"
  by (cases "chunk_content c")
     (auto simp: content_only_def processChunk_def handle_content_def handle_tool_calls_def
        handle_tool_call_start_def handle_tool_input_delta_def handle_finish_reason_def
        truthy_def or_empty_def Let_def)

lemma processChunks_content_only:
  "\<forall>c\<in>set cs. content_only c \<Longrightarrow> snd (processChunks p cs) = []"
proof (induction cs arbitrary: p)
  case Nil
  then show ?case by simp
next
  case (Cons c cs)
  from Cons.prems have "content_only c" by simp
  from processChunk_content_only[OF this, of p] obtain p' r where "processChunk p c = Inr (p', r)"
    by blast
  moreover from Cons.prems have "\<forall>c\<in>set cs. content_only c" by simp
  ultimately show ?case using Cons.IH by simp
qed

text \<open>
  C3. For every finite sequence of chunks that carry only content fragments, processed in
  order from a fresh parser, no chunk raises an exception and \<open>getResult().content\<close> is
  the concatenation of all content fragments in arrival order, whatever their sizes and
  count; a chunk without a content fragment, or with an empty one, adds nothing.
\<close>

theorem content_ordering:
  "\<forall>c\<in>set cs. content_only c \<Longrightarrow>
   snd (processChunks new_parser cs) = [] \<and>
   result_content (getResult (fst (processChunks new_parser cs))) =
     concat (map (or_empty \<circ> chunk_content) cs)"
  using processChunks_content_only[of cs new_parser] contentBuffer_processChunks[of new_parser cs]
  by (simp add: getResult_def new_parser_def Let_def)

theorem content_ordering_witness:
  "content_only (content_chunk ''Hel'') \<and> content_only (content_chunk []) \<and>
   content_only (content_chunk ''lo'') \<and>
   snd (processChunks new_parser [content_chunk ''Hel'', content_chunk [], content_chunk ''lo'']) = [] \<and>
   result_content (getResult (fst (processChunks new_parser
      [content_chunk ''Hel'', content_chunk [], content_chunk ''lo'']))) = ''Hello''"
proof -
  have h: "\<forall>c\<in>set [content_chunk ''Hel'', content_chunk [], content_chunk ''lo'']. content_only c"
    by (simp add: content_only_def content_chunk_def)
  from content_ordering[OF h] h show ?thesis
    by (simp add: content_chunk_def or_empty_def content_only_def)
qed




lemma map_of_map_entry:
  "map_of (AList.map_entry k f al) k' =
     (if k' = k then map_option f (map_of al k) else map_of al k')"
  by (induction al) auto

lemma stored_name_process_tool_call:
  "stored_name (process_tool_call buf tc) i =
     (if frag_index tc = i then merge_rule (stored_name buf i) (or_empty (function_name tc))
      else stored_name buf i)"
  by (cases "map_of buf (frag_index tc)"; cases "function_name tc")
     (auto simp: stored_name_def process_tool_call_def Let_def map_of_map_entry merge_rule_def
        AList.update_conv' truthy_def or_empty_def merge_name_def)

lemma stored_name_foldl:
  "stored_name (foldl process_tool_call buf tcs) i =
     foldl merge_rule (stored_name buf i)
       (map (or_empty \<circ> function_name) (filter (\<lambda>tc. frag_index tc = i) tcs))"
  by (induction tcs arbitrary: buf) (simp_all add: stored_name_process_tool_call)

text \<open>
  Under the alternate encoding the buffer stays \<open>indexed tcs\<close> for a list \<open>tcs\<close>: its
  keys are \<open>0, ..., length tcs - 1\<close>, so the next index is fresh and the last one is
  stored.
\<close>

lemma indexed_snoc: "indexed (xs @ [x]) = indexed xs @ [(length xs, x)]"
  by (simp add: indexed_def)

lemma fst_indexed: "map fst (indexed xs) = [0..<length xs]"
  by (simp add: indexed_def)

lemma length_indexed: "length (indexed xs) = length xs"
  by (simp add: indexed_def)

lemma indexed_Nil_iff: "indexed xs = [] \<longleftrightarrow> xs = []"
  by (simp add: indexed_def)

lemma update_fresh: "k \<notin> fst ` set al \<Longrightarrow> AList.update k v al = al @ [(k, v)]"
  by (induction al) auto

lemma update_indexed: "AList.update (length xs) x (indexed xs) = indexed (xs @ [x])"
proof -
  have "length xs \<notin> fst ` set (indexed xs)"
    using fst_indexed[of xs] by (metis atLeastLessThan_iff less_irrefl list.set_map set_upt)
  then show ?thesis by (simp add: update_fresh indexed_snoc)
qed

lemma map_entry_absent: "k \<notin> fst ` set al \<Longrightarrow> AList.map_entry k f al = al"
  by (induction al) auto

lemma map_entry_snoc_fresh:
  "k \<notin> fst ` set al \<Longrightarrow> AList.map_entry k f (al @ [(k, x)]) = al @ [(k, f x)]"
  by (induction al) auto

lemma map_entry_last_indexed:
  "AList.map_entry (length xs) f (indexed (xs @ [x])) = indexed (xs @ [f x])"
proof -
  have "length xs \<notin> fst ` set (indexed xs)"
    using fst_indexed[of xs] by (metis atLeastLessThan_iff less_irrefl list.set_map set_upt)
  then show ?thesis by (simp add: indexed_snoc map_entry_snoc_fresh)
qed

lemma map_of_indexed_last: "map_of (indexed (xs @ [x])) (length xs) = Some x"
proof -
  have "length xs \<notin> fst ` set (indexed xs)"
    using fst_indexed[of xs] by (metis atLeastLessThan_iff less_irrefl list.set_map set_upt)
  then have "map_of (indexed xs) (length xs) = None"
    by (simp add: map_of_eq_None_iff)
  then show ?thesis by (simp add: indexed_snoc map_add_def)
qed

lemma buffer_handle_content: "toolCallsBuffer (fst (handle_content c pr)) = toolCallsBuffer (fst pr)"
  by (cases pr) (simp add: handle_content_def Let_def)

lemma buffer_handle_finish_reason:
  "toolCallsBuffer (fst (handle_finish_reason c pr)) = toolCallsBuffer (fst pr)"
  by (cases pr) (simp add: handle_finish_reason_def)

lemma handle_tool_calls_None: "chunk_tool_calls c = None \<Longrightarrow> handle_tool_calls c pr = pr"
  by (cases pr) (simp add: handle_tool_calls_def)

lemma alt_step_split: "alt_step tcs c = alt_delta (alt_start tcs c) c"
  by (simp add: alt_step_def)

lemma buffer_handle_tool_call_start:
  "toolCallsBuffer (fst pr) = indexed tcs \<Longrightarrow>
   toolCallsBuffer (fst (handle_tool_call_start c pr)) = indexed (alt_start tcs c)"
  by (cases pr; cases "chunk_tool_call_start c")
     (simp_all add: handle_tool_call_start_def alt_start_def Let_def Object_keys_length_def
        length_indexed update_indexed)

lemma buffer_handle_tool_input_delta:
  assumes "toolCallsBuffer (fst pr) = indexed tcs"
  shows "\<exists>pr'. handle_tool_input_delta c pr = Inr pr' \<and>
               toolCallsBuffer (fst pr') = indexed (alt_delta tcs c)"
proof (cases pr)
  case (Pair p r)
  with assms have buf: "toolCallsBuffer p = indexed tcs" by simp
  show ?thesis
  proof (cases "chunk_tool_input_delta c")
    case None
    with Pair buf show ?thesis
      by (simp add: handle_tool_input_delta_def truthy_def alt_delta_def)
  next
    case (Some d)
    show ?thesis
    proof (cases "tcs = []")
      case True
      with Pair buf Some show ?thesis
        by (simp add: handle_tool_input_delta_def truthy_def alt_delta_def Let_def
              Object_keys_length_def length_indexed)
    next
      case False
      then obtain ys y where tcs: "tcs = ys @ [y]" by (metis rev_exhaust)
      show ?thesis
      proof (cases "d = []")
        case True
        with Pair buf Some tcs show ?thesis
          by (simp add: handle_tool_input_delta_def truthy_def alt_delta_def)
      next
        case False
        with Pair buf Some tcs show ?thesis
          by (simp add: handle_tool_input_delta_def truthy_def alt_delta_def Let_def
                Object_keys_length_def length_indexed map_of_indexed_last or_empty_def
                map_entry_last_indexed indexed_Nil_iff)
      qed
    qed
  qed
qed

lemma processChunk_alt:
  assumes "chunk_tool_calls c = None" and "toolCallsBuffer p = indexed tcs"
  shows "\<exists>p' r. processChunk p c = Inr (p', r) \<and> toolCallsBuffer p' = indexed (alt_step tcs c)"
proof -
  define r0 where "r0 = \<lparr>res_type = chunk_type c, delta_content = None, acc_content = None,
                     acc_toolCalls = None, res_finishReason = None\<rparr>"
  define pr1 where "pr1 = handle_tool_call_start c (handle_tool_calls c (handle_content c (p, r0)))"
  have "toolCallsBuffer (fst (handle_content c (p, r0))) = indexed tcs"
    using assms(2) by (simp add: buffer_handle_content)
  then have "toolCallsBuffer (fst pr1) = indexed (alt_start tcs c)"
    unfolding pr1_def using assms(1) by (simp add: handle_tool_calls_None buffer_handle_tool_call_start)
  from buffer_handle_tool_input_delta[OF this, of c] obtain pr2 where
    pr2: "handle_tool_input_delta c pr1 = Inr pr2"
      "toolCallsBuffer (fst pr2) = indexed (alt_step tcs c)"
    by (auto simp: alt_step_split)
  have "processChunk p c = Inr (handle_finish_reason c pr2)"
    using pr2(1) by (simp add: processChunk_def pr1_def r0_def Let_def)
  moreover have "toolCallsBuffer (fst (handle_finish_reason c pr2)) = indexed (alt_step tcs c)"
    using pr2(2) by (simp add: buffer_handle_finish_reason)
  ultimately show ?thesis by (cases "handle_finish_reason c pr2") auto
qed

lemma processChunks_alt:
  "\<forall>c\<in>set cs. chunk_tool_calls c = None \<Longrightarrow> toolCallsBuffer p = indexed tcs \<Longrightarrow>
   snd (processChunks p cs) = [] \<and>
   toolCallsBuffer (fst (processChunks p cs)) = indexed (foldl alt_step tcs cs)"
proof (induction cs arbitrary: p tcs)
  case Nil
  then show ?case by simp
next
  case (Cons c cs)
  from Cons.prems have "chunk_tool_calls c = None" by simp
  from processChunk_alt[OF this Cons.prems(2)] obtain p1 r where
    p1: "processChunk p c = Inr (p1, r)" "toolCallsBuffer p1 = indexed (alt_step tcs c)" by blast
  from Cons.prems have "\<forall>c\<in>set cs. chunk_tool_calls c = None" by simp
  from Cons.IH[OF this p1(2)] p1(1) show ?case by simp
qed

lemma get_file_sequence:
  "processChunks new_parser [name_chunk 0 ''get_f'', name_chunk 0 ''get_file'', name_chunk 0 ''get'']
   = (new_parser\<lparr>toolCallsBuffer := [(0, \<lparr>tc_id = [], tc_name = ''get_file'', tc_arguments = []\<rparr>)]\<rparr>, [])"
  by (simp add: name_chunk_def new_parser_def processChunk_def handle_content_def handle_tool_calls_def
        handle_tool_call_start_def handle_tool_input_delta_def handle_finish_reason_def
        truthy_def or_empty_def Let_def process_tool_call_def function_name_def function_arguments_def
        merge_name_def)

text \<open>
  C4. For every sequence of indexed tool-call fragments, the name stored under an index
  is the fold, over the names of the fragments delivered to that index in order, of the
  merge rule: a name fragment replaces the stored name only when the stored name is
  empty, or the fragment differs from it and is at least as long. Fragments for other
  indices and fragments without a name leave it as it is. For the names \<open>get_f\<close>,
  \<open>get_file\<close>, \<open>get\<close> delivered in that order to index 0 of a fresh parser, the stored
  name is \<open>get_file\<close>.
\<close>

theorem name_merge:
  "stored_name (foldl process_tool_call buf tcs) i =
     foldl merge_rule (stored_name buf i)
       (map (or_empty \<circ> function_name) (filter (\<lambda>tc. frag_index tc = i) tcs)) \<and>
   map tc_name (Object_values (toolCallsBuffer (fst (processChunks new_parser
      [name_chunk 0 ''get_f'', name_chunk 0 ''get_file'', name_chunk 0 ''get''])))) = [''get_file'']"
proof
  show "stored_name (foldl process_tool_call buf tcs) i =
     foldl merge_rule (stored_name buf i)
       (map (or_empty \<circ> function_name) (filter (\<lambda>tc. frag_index tc = i) tcs))"
    by (rule stored_name_foldl)
  show "map tc_name (Object_values (toolCallsBuffer (fst (processChunks new_parser
      [name_chunk 0 ''get_f'', name_chunk 0 ''get_file'', name_chunk 0 ''get''])))) = [''get_file'']"
    unfolding get_file_sequence by (simp add: Object_values_def)
qed

text \<open>
  C5. For every chunk sequence that uses the alternate encoding (no chunk has indexed
  fragments), processed from a fresh parser, \<open>processChunk\<close> succeeds on every chunk and
  the buffer holds, under the indices \<open>0, 1, 2, ...\<close>, the tool calls that the
  specification's rule builds: each \<open>tool_call_start\<close> allocates a fresh entry at the next
  index, each \<open>tool_input_delta\<close> appends its text to the arguments of the most recently
  allocated entry and changes no other entry.
\<close>

theorem alternate_encoding:
  "\<forall>c\<in>set cs. chunk_tool_calls c = None \<Longrightarrow>
   snd (processChunks new_parser cs) = [] \<and>
   toolCallsBuffer (fst (processChunks new_parser cs)) = indexed (foldl alt_step [] cs)"
  using processChunks_alt[of cs new_parser "[]"] by (simp add: new_parser_def indexed_def)

theorem alternate_encoding_witness:
  "chunk_tool_calls (start_chunk ''a'' ''f'') = None \<and> chunk_tool_calls (delta_chunk ''{}'') = None \<and>
   snd (processChunks new_parser
     [start_chunk ''a'' ''f'', delta_chunk ''{\"x\"'', start_chunk ''b'' ''g'', delta_chunk ''{}'', delta_chunk '' '']) = [] \<and>
   toolCallsBuffer (fst (processChunks new_parser
     [start_chunk ''a'' ''f'', delta_chunk ''{\"x\"'', start_chunk ''b'' ''g'', delta_chunk ''{}'', delta_chunk '' '']))
   = [(0, \<lparr>tc_id = ''a'', tc_name = ''f'', tc_arguments = ''{\"x\"''\<rparr>),
      (1, \<lparr>tc_id = ''b'', tc_name = ''g'', tc_arguments = ''{} ''\<rparr>)]"
proof -
  let ?cs = "[start_chunk ''a'' ''f'', delta_chunk ''{\"x\"'', start_chunk ''b'' ''g'', delta_chunk ''{}'', delta_chunk '' '']"
  have h: "\<forall>c\<in>set ?cs. chunk_tool_calls c = None"
    by (simp add: start_chunk_def delta_chunk_def)
  have buf: "indexed (foldl alt_step [] ?cs) =
        [(0, \<lparr>tc_id = ''a'', tc_name = ''f'', tc_arguments = ''{\"x\"''\<rparr>),
         (1, \<lparr>tc_id = ''b'', tc_name = ''g'', tc_arguments = ''{} ''\<rparr>)]"
    by (simp add: alt_step_def alt_start_def alt_delta_def start_chunk_def delta_chunk_def
          indexed_def upt_rec)
  have "chunk_tool_calls (start_chunk ''a'' ''f'') = None \<and> chunk_tool_calls (delta_chunk ''{}'') = None"
    by (simp add: start_chunk_def delta_chunk_def)
  with alternate_encoding[OF h] buf show ?thesis
    by (simp only: simp_thms)
qed

subsection \<open>Orchestrator\<close>


lemma example_cache_simps:
  "example_cache ''workspace_list_files'' =
     Some \<lparr>agg_name = ''workspace_list_files'', agg_description = ''List all files'',
           agg_inputSchema = None, agg_panelId = ''panel-1'', agg_panelTypeId = ''workspace'',
           agg_panelTitle = ''Workspace'', originalName = ''list_files''\<rparr>"
  "example_cache ''workspace_read_file'' =
     Some \<lparr>agg_name = ''workspace_read_file'', agg_description = ''Read a file'',
           agg_inputSchema = None, agg_panelId = ''panel-1'', agg_panelTypeId = ''workspace'',
           agg_panelTitle = ''Workspace'', originalName = ''read_file''\<rparr>"
  "example_cache ''workspace_delete'' = None"
  by (simp_all add: example_cache_def collectTools_def example_env_def example_panel_def
        workspace_definition_def enrich_def)

lemma collect_loop_concat:
  "collect_loop env pans allTools = allTools @ concat (map (panel_tools env) pans)"
  by (induction pans arbitrary: allTools)
     (auto simp: panel_tools_def enrich_def split: option.splits sum.splits)

text \<open>
  C6. For every list of panel instances and every registry, a second call of
  \<open>collectTools\<close>, made after the first one has rebuilt the tool cache, returns the same
  list and the same cache. The list is, in panel order, what each panel contributes: its
  tools in their order, each named \<open>{panelTypeId}_{originalName}\<close>, with the panel's
  instance id, type id and title, and with the original name kept. A panel whose
  \<open>getMCPTools\<close> throws contributes nothing, and the other panels contribute as before.
\<close>

theorem collectTools_idempotent:
  "collectTools env (fst (collectTools env cache pans)) pans = collectTools env cache pans \<and>
   snd (collectTools env cache pans) = concat (map (panel_tools env) pans)"
  by (simp add: collectTools_def Let_def collect_loop_concat)

text \<open>
  The failures \<open>executeTool\<close> does turn into results: a name that is not in the tool
  cache, a tool whose panel instance is no longer in the store, and an executor that
  throws an Error object. An exception leaves \<open>executeTool\<close> only when the executor has
  thrown \<open>null\<close> or \<open>undefined\<close>, and it is a TypeError.
\<close>

lemma executeTool_structured_failures:
  "(cache toolName = None \<longrightarrow>
      executeTool env cache pans toolName args =
        Inr (\<lparr>success = False, tr_result = None, tr_error = Some (''Unknown tool: '' @ toolName),
              tr_toolName = None, tr_panelTitle = None\<rparr>, pans)) \<and>
   (\<forall>tool. cache toolName = Some tool \<and> find (\<lambda>p. panel_id p = agg_panelId tool) pans = None \<longrightarrow>
      (\<exists>message. executeTool env cache pans toolName args =
        Inr (\<lparr>success = False, tr_result = None, tr_error = Some message,
              tr_toolName = None, tr_panelTitle = None\<rparr>, pans))) \<and>
   (\<forall>tool defn execute panel updates message.
      cache toolName = Some tool \<and>
      getPanelDefinition env (agg_panelTypeId tool) = Some defn \<and>
      executeMCPTool defn = Some execute \<and>
      find (\<lambda>p. panel_id p = agg_panelId tool) pans = Some panel \<and>
      execute (originalName tool) args (panel_state panel) = (updates, Inl (ErrorObject message)) \<longrightarrow>
      (\<exists>qs. executeTool env cache pans toolName args =
        Inr (\<lparr>success = False, tr_result = None, tr_error = Some message,
              tr_toolName = Some toolName, tr_panelTitle = None\<rparr>, qs)))"
  by (auto simp: executeTool_def failure_def Let_def split: option.splits sum.splits prod.splits)

lemma executeTool_throws_only_on_nullish:
  assumes "executeTool env cache pans toolName args = Inl (e, qs)"
  shows "e = TypeError \<and>
         (\<exists>tool defn execute panel updates.
            cache toolName = Some tool \<and>
            getPanelDefinition env (agg_panelTypeId tool) = Some defn \<and>
            executeMCPTool defn = Some execute \<and>
            find (\<lambda>p. panel_id p = agg_panelId tool) pans = Some panel \<and>
            execute (originalName tool) args (panel_state panel) = (updates, Inl Nullish))"
  using assms
  by (auto simp: executeTool_def failure_def Let_def
        split: option.splits sum.splits prod.splits js_thrown.splits)


lemma push_panel_section: "push_panel env parts panel = parts @ panel_section env panel"
  by (simp add: push_panel_def panel_section_def context_lines_def Let_def
        split: option.splits json.splits)

lemma foldl_push_panel:
  "foldl (push_panel env) parts ps = parts @ concat (map (panel_section env) ps)"
  by (induction ps arbitrary: parts) (simp_all add: push_panel_section)

lemma push_tool_lines: "push_tool parts tool = parts @ tool_lines tool"
  by (simp add: push_tool_def tool_lines_def Let_def)

lemma foldl_push_tool: "foldl push_tool parts tools = parts @ concat (map tool_lines tools)"
  by (induction tools arbitrary: parts) (simp_all add: push_tool_lines)

lemma prompt_parts_sections:
  "prompt_parts env ctx tools =
     prompt_intro @ observed_section env (observedPanels ctx) @ tools_section tools @ prompt_guidelines"
  by (simp add: prompt_parts_def Let_def foldl_push_panel foldl_push_tool observed_section_def
        tools_section_def)

lemma context_lines_cap: "list_all (\<lambda>line. length line \<le> 2000) (context_lines env context)"
  by (simp add: context_lines_def split: option.splits json.splits)

text \<open>
  C9. For every list of observed panels, the system prompt is the introduction, then one
  section per observed panel in order, then the tool catalog and the guidelines. The
  section of a panel is a function of that panel alone: its heading and its own context
  dump, \<open>take 2000\<close> of the string data or of the pretty-printed JSON of the object data.
  No line of a dump is longer than 2000 characters, and the size of one panel's data
  changes nothing in the section of another panel.
\<close>

theorem per_panel_truncation:
  "generateSystemPrompt env ctx tools =
     join [CHR 0x0A]
       (prompt_intro @ observed_section env (observedPanels ctx) @ tools_section tools
        @ prompt_guidelines) \<and>
   list_all (\<lambda>line. length line \<le> 2000) (context_lines env context)"
  by (simp add: generateSystemPrompt_def prompt_parts_sections context_lines_cap)

theorem per_panel_truncation_witness:
  "observed_section example_env [text_panel ''A'' (replicate 2500 CHR ''a''), text_panel ''B'' ''hello''] =
     [''## Currently Observed Panels'',
      ''The following panels are being observed (you can see their content):'',
      '''',
      ''### A (notes)'', ''```'', replicate 2000 CHR ''a'', ''```'', '''',
      ''### B (notes)'', ''```'', ''hello'', ''```'', ''''] \<and>
   generateSystemPrompt example_env
     \<lparr>observedPanels = [text_panel ''A'' (replicate 2500 CHR ''a''), text_panel ''B'' ''hello''],
      context_timestamp = 0\<rparr> [] =
     join [CHR 0x0A]
       (prompt_intro @
        observed_section example_env [text_panel ''A'' (replicate 2500 CHR ''a''), text_panel ''B'' ''hello'']
        @ prompt_guidelines)"
  using per_panel_truncation[of example_env
     "\<lparr>observedPanels = [text_panel ''A'' (replicate 2500 CHR ''a''), text_panel ''B'' ''hello''],
      context_timestamp = 0\<rparr>" "[]"]
  by (simp add: observed_section_def panel_section_def context_lines_def text_panel_def
        tools_section_def)

subsection \<open>Conversation controller\<close>

lemma messages_after_streamChat [simp]: "messages (after_streamChat awaited s) = messages s"
  by (cases awaited) (simp_all add: after_streamChat_def)

lemma messages_run_cancelled [simp]: "messages (run_cancelled cancelled s) = messages s"
  by (cases cancelled) (simp_all add: run_cancelled_def)

lemma messages_abort [simp]: "messages (snd (abort s)) = messages s"
  by (simp add: abort_def)

lemma messages_streamChat [simp]: "messages (streamChat callbacks body s) = messages s"
  by (simp add: streamChat_def abort_def Let_def split: prod.splits)

lemma messages_addMessage [simp]: "messages (addMessage msg s) = messages s @ [msg]"
  by (simp add: addMessage_def)

lemma messages_sendMessage:
  "messages (sendMessage env closure_messages content attachments u p now s) =
     (if trim content = [] \<and> attachments = [] then messages s
      else messages s @ [createUserMessage u content attachments, createStreamingMessage p])"
  by (simp add: sendMessage_def Let_def split: prod.splits)

lemma keeps_messages_refl [simp]: "keeps_messages ms ms"
  by (cases ms rule: rev_cases) (simp_all add: keeps_messages_def)

lemma keeps_messages_append [simp]: "keeps_messages ms (ms @ new)"
  by (cases ms rule: rev_cases) (simp_all add: keeps_messages_def)

lemma keeps_messages_trans:
  assumes ab: "keeps_messages a b" and bc: "keeps_messages b c"
  shows "keeps_messages a c"
proof -
  from ab have 1: "length a \<le> length b" "map msg_id (take (length a) b) = map msg_id a"
    "take (length a - 1) b = butlast a" by (simp_all add: keeps_messages_def)
  from bc have 2: "length b \<le> length c" "map msg_id (take (length b) c) = map msg_id b"
    "take (length b - 1) c = butlast b" by (simp_all add: keeps_messages_def)
  have "map msg_id (take (length a) c) = take (length a) (map msg_id (take (length b) c))"
    using 1(1) by (simp add: take_map min_def)
  also have "\<dots> = map msg_id (take (length a) b)"
    by (simp add: 2(2) take_map)
  finally have ids: "map msg_id (take (length a) c) = map msg_id a" by (simp add: 1(2))
  have "take (length a - 1) c = take (length a - 1) (take (length b - 1) c)"
    using 1(1) by (simp add: min_def)
  also have "\<dots> = take (length a - 1) (butlast b)" by (simp only: 2(3))
  also have "\<dots> = take (length a - 1) b"
    using 1(1) by (simp add: butlast_conv_take min_def)
  finally have rest: "take (length a - 1) c = butlast a" using 1(3) by simp
  from 1(1) 2(1) ids rest show ?thesis by (simp add: keeps_messages_def)
qed

lemma keeps_messages_updateLastMessage:
  assumes "\<And>m. msg_id (updates m) = msg_id m"
  shows "keeps_messages (messages s) (messages (updateLastMessage updates s))"
  by (cases "messages s" rule: rev_cases)
     (simp_all add: updateLastMessage_def keeps_messages_def assms)

lemma keeps_messages_sendMessage:
  "keeps_messages (messages s) (messages (sendMessage env closure_messages content attachments u p now s))"
  by (simp add: messages_sendMessage)

lemma keeps_messages_sendMessage_onChunk:
  "keeps_messages (messages s) (messages (sendMessage_onChunk c s))"
proof (cases "processChunk (streamParser s) c")
  case (Inl ep)
  then show ?thesis by (cases ep) (simp add: sendMessage_onChunk_def)
next
  case (Inr pr)
  obtain parser result where pr: "pr = (parser, result)" by (cases pr)
  let ?s1 = "s\<lparr>streamParser := parser\<rparr>"
  let ?s2 = "case acc_content result of
               None \<Rightarrow> ?s1
             | Some content \<Rightarrow>
                 updateLastMessage
                   (\<lambda>m. m\<lparr>msg_content := Some content, msg_isStreaming := Some True\<rparr>) ?s1"
  have a: "keeps_messages (messages s) (messages ?s2)"
    using keeps_messages_updateLastMessage[of _ ?s1]
    by (cases "acc_content result") simp_all
  have b: "keeps_messages (messages ?s2)
             (messages (case acc_toolCalls result of
                None \<Rightarrow> ?s2
              | Some toolCalls \<Rightarrow>
                  updateLastMessage
                    (\<lambda>m. m\<lparr>msg_toolCalls := Some toolCalls, msg_isStreaming := Some True\<rparr>) ?s2))"
    using keeps_messages_updateLastMessage[of _ ?s2]
    by (cases "acc_toolCalls result") simp_all
  from keeps_messages_trans[OF a b] Inr pr show ?thesis
    by (simp add: sendMessage_onChunk_def Let_def)
qed

lemma keeps_messages_handleToolCalls_onChunk:
  "keeps_messages (messages s) (messages (handleToolCalls_onChunk c s))"
proof (cases "processChunk (streamParser s) c")
  case (Inl ep)
  then show ?thesis by (cases ep) (simp add: handleToolCalls_onChunk_def)
next
  case (Inr pr)
  obtain parser result where pr: "pr = (parser, result)" by (cases pr)
  show ?thesis
    using Inr pr keeps_messages_updateLastMessage[of _ "s\<lparr>streamParser := parser\<rparr>"]
    by (cases "acc_content result") (simp_all add: handleToolCalls_onChunk_def Let_def)
qed

lemma keeps_messages_onError:
  "keeps_messages (messages s) (messages (onError message s))"
  using keeps_messages_updateLastMessage[of _ "s\<lparr>chat_error := Some message\<rparr>"]
  by (simp add: onError_def)

lemma keeps_messages_handleToolCalls_onDone:
  "keeps_messages (messages s) (messages (handleToolCalls_onDone s))"
  using keeps_messages_updateLastMessage[of _ s]
  by (simp add: handleToolCalls_onDone_def Let_def)

lemma keeps_messages_stopGeneration:
  "keeps_messages (messages s) (messages (stopGeneration s))"
proof -
  obtain cancelled s1 where a: "abort s = (cancelled, s1)" by (cases "abort s")
  then have m: "messages s1 = messages s"
    using messages_abort[of s] by simp
  show ?thesis
    using a m keeps_messages_updateLastMessage[of "\<lambda>m. m\<lparr>msg_isStreaming := Some False\<rparr>" "s1\<lparr>isLoading := False\<rparr>"]
    by (simp add: stopGeneration_def Let_def)
qed

lemma messages_handleToolCalls_execute:
  "handleToolCalls_execute env toolCalls s = Inl (e, s') \<Longrightarrow> messages s' = messages s"
  "handleToolCalls_execute env toolCalls s = Inr (results, s') \<Longrightarrow> messages s' = messages s"
  by (auto simp: handleToolCalls_execute_def Let_def split: sum.splits prod.splits)

lemma messages_handleToolCalls_continue:
  "\<exists>new. messages (handleToolCalls_continue env toolCalls previousMessages results t p s) =
     messages s @ new"
  by (simp add: handleToolCalls_continue_def Let_def)

lemma keeps_messages_sendMessage_onDone:
  "keeps_messages (messages s) (messages (snd (sendMessage_onDone env apiMessages t p s)))"
proof -
  let ?f = "getResult (streamParser s)"
  let ?s1 = "updateLastMessage
                 (\<lambda>m. m\<lparr>msg_content := Some (result_content ?f),
                         msg_toolCalls := result_toolCalls ?f,
                         msg_isStreaming := Some False\<rparr>) s"
  have a: "keeps_messages (messages s) (messages ?s1)"
    by (rule keeps_messages_updateLastMessage) simp
  have "\<exists>new. messages (snd (sendMessage_onDone env apiMessages t p s)) = messages ?s1 @ new"
  proof (cases "result_toolCalls ?f")
    case None
    then show ?thesis by (simp add: sendMessage_onDone_def Let_def)
  next
    case (Some toolCalls)
    show ?thesis
    proof (cases "handleToolCalls_execute env toolCalls (?s1\<lparr>inflight := None\<rparr>)")
      case (Inl es)
      obtain e s3 where es: "es = (e, s3)" by (cases es)
      from messages_handleToolCalls_execute(1)[of env toolCalls "?s1\<lparr>inflight := None\<rparr>" e s3]
        Inl es Some show ?thesis
        by (simp add: sendMessage_onDone_def Let_def)
    next
      case (Inr rs)
      obtain results s3 where rs: "rs = (results, s3)" by (cases rs)
      from messages_handleToolCalls_execute(2)[of env toolCalls "?s1\<lparr>inflight := None\<rparr>" results s3]
        Inr rs have m: "messages s3 = messages ?s1" by simp
      from messages_handleToolCalls_continue[of env toolCalls apiMessages results t p
          "after_streamChat (FirstPass apiMessages) s3"] m
      show ?thesis using Inr rs Some
        by (simp add: sendMessage_onDone_def Let_def)
    qed
  qed
  then obtain new where "messages (snd (sendMessage_onDone env apiMessages t p s)) = messages ?s1 @ new"
    by blast
  then have b: "keeps_messages (messages ?s1) (messages (snd (sendMessage_onDone env apiMessages t p s)))"
    by simp
  from keeps_messages_trans[OF a b] show ?thesis .
qed

lemma keeps_messages_step:
  assumes "ev \<noteq> Clear" and "\<And>u p now. ev \<noteq> Regenerate u p now"
  shows "keeps_messages (messages s) (messages (step env ev s))"
proof (cases ev)
  case (Send content attachments u p now)
  then show ?thesis by (simp add: keeps_messages_sendMessage)
next
  case (Regenerate u p now)
  with assms(2) show ?thesis by blast
next
  case Clear
  with assms(1) show ?thesis by simp
next
  case Stop
  then show ?thesis by (simp add: keeps_messages_stopGeneration)
next
  case (Chunk c)
  then show ?thesis
    by (simp add: keeps_messages_sendMessage_onChunk keeps_messages_handleToolCalls_onChunk
          split: option.splits pending.splits)
next
  case (Done t p)
  then show ?thesis
    using keeps_messages_handleToolCalls_onDone[of s]
    by (simp add: keeps_messages_sendMessage_onDone split: option.splits pending.splits)
next
  case (Failed message)
  then show ?thesis
    using keeps_messages_onError[of s message]
    by (simp split: option.splits)
qed

lemma findLastIndex_append:
  "P m \<Longrightarrow> list_all (\<lambda>x. \<not> P x) post \<Longrightarrow> findLastIndex P (pre @ m # post) = Some (length pre)"
proof (induction pre)
  case Nil
  have "findLastIndex P post = None" using Nil(2) by (induction post) auto
  with Nil show ?case by simp
next
  case (Cons a pre)
  then show ?case by simp
qed

lemma regenerate_at_last_user:
  assumes "messages s = pre @ m # post" "msg_role m = ''user''"
    "list_all (\<lambda>x. msg_role x \<noteq> ''user'') post"
  shows "regenerateLastResponse env u p now s =
     (case msg_content m of
        None \<Rightarrow> Inl (TypeError, s\<lparr>messages := pre\<rparr>)
      | Some content \<Rightarrow>
          Inr (sendMessage env (messages s) content
                 (case msg_attachments m of None \<Rightarrow> [] | Some a \<Rightarrow> a) u p now (s\<lparr>messages := pre\<rparr>)))"
proof -
  have "findLastIndex (\<lambda>x. msg_role x = ''user'') (messages s) = Some (length pre)"
    unfolding assms(1) using assms(2,3) by (intro findLastIndex_append) simp_all
  then show ?thesis by (simp add: regenerateLastResponse_def Let_def assms(1))
qed

lemma dropWhile_all: "\<forall>c\<in>set s. P c \<Longrightarrow> dropWhile P s = []"
  by (induction s) auto

lemma trim_blank: "\<forall>c\<in>set content. is_white_space c \<Longrightarrow> trim content = []"
  by (simp add: trim_def dropWhile_all)

lemma trim_Nil_iff: "trim content = [] \<longleftrightarrow> (\<forall>c\<in>set content. is_white_space c)"
proof
  assume "trim content = []"
  then have "dropWhile is_white_space (rev (dropWhile is_white_space content)) = []"
    by (simp add: trim_def)
  then have "\<forall>c\<in>set (dropWhile is_white_space content). is_white_space c"
    by (simp add: dropWhile_eq_Nil_conv)
  moreover have "dropWhile is_white_space content \<noteq> [] \<Longrightarrow>
      \<not> is_white_space (hd (dropWhile is_white_space content))"
    by (rule hd_dropWhile)
  ultimately have "dropWhile is_white_space content = []"
    by (cases "dropWhile is_white_space content") auto
  then show "\<forall>c\<in>set content. is_white_space c" by (simp add: dropWhile_eq_Nil_conv)
qed (rule trim_blank)

text \<open>
  C10. For every call of \<open>sendMessage\<close> whose content is empty or consists only of white
  space and whose attachments list is empty, the call returns before any change of state:
  the state after it is the state before it, so no user message and no placeholder are
  appended, \<open>isLoading\<close> and \<open>error\<close> are untouched and no request is posted.
\<close>

theorem blank_message_is_noop:
  "\<forall>c\<in>set content. is_white_space c \<Longrightarrow>
   sendMessage env closure_messages content [] u p now s = s \<and>
   step env (Send content [] u p now) s = s"
  by (simp add: sendMessage_def trim_blank)

theorem blank_message_is_noop_witness:
  "is_white_space CHR 0x20 \<and> is_white_space CHR 0x09 \<and> is_white_space CHR 0x0A \<and>
   sendMessage example_env [] [CHR 0x20, CHR 0x09, CHR 0x0A] [] (stamp_of 1) (stamp_of 2) 3 idle = idle \<and>
   step example_env (Send [CHR 0x20, CHR 0x09, CHR 0x0A] [] (stamp_of 1) (stamp_of 2) 3) idle = idle"
proof -
  have h: "\<forall>c\<in>set [CHR 0x20, CHR 0x09, CHR 0x0A]. is_white_space c"
    by (simp add: is_white_space_def)
  from blank_message_is_noop[OF h] h show ?thesis by simp
qed

text \<open>
  C7, the claim as stated: regeneration is the only operation that removes messages. It
  fails for \<open>clearMessages\<close>, which empties the list: after the user's \<open>Hi\<close> has been
  answered the list holds two messages, and after \<open>clearMessages\<close> it holds none.
\<close>

theorem clear_removes_messages:
  "map msg_role (messages answered) = [''user'', ''assistant''] \<and>
   messages (step example_env Clear answered) = []"
  by code_simp

text \<open>
  C7, amended. For every message list with a last user message,
  \<open>regenerateLastResponse\<close> truncates the list back to, and not including, that message
  and then calls \<open>sendMessage\<close> with the message's content and attachments: the list then
  is the messages before the last user message, followed, unless the content is blank and
  there are no attachments, by a new user message with that content and those
  attachments and a new streaming placeholder. \<open>regenerateLastResponse\<close> and
  \<open>clearMessages\<close> are the only operations of the controller that remove messages: after
  every other event each message of the list is still in its place with its id, and each
  but the last one is unchanged.
\<close>

theorem regenerate_truncates:
  "(messages s = pre @ m # post \<and> msg_role m = ''user'' \<and> msg_content m = Some content \<and>
    list_all (\<lambda>x. msg_role x \<noteq> ''user'') post \<longrightarrow>
      regenerateLastResponse env u p now s =
        Inr (sendMessage env (messages s) content
               (case msg_attachments m of None \<Rightarrow> [] | Some a \<Rightarrow> a) u p now (s\<lparr>messages := pre\<rparr>)) \<and>
      messages (step env (Regenerate u p now) s) =
        pre @ (if trim content = [] \<and> (case msg_attachments m of None \<Rightarrow> [] | Some a \<Rightarrow> a) = []
               then []
               else [createUserMessage u content
                       (case msg_attachments m of None \<Rightarrow> [] | Some a \<Rightarrow> a),
                     createStreamingMessage p])) \<and>
   (ev \<noteq> Clear \<and> (\<forall>u' p' now'. ev \<noteq> Regenerate u' p' now') \<longrightarrow>
      keeps_messages (messages s) (messages (step env ev s)))"
proof (intro conjI impI)
  assume a: "messages s = pre @ m # post \<and> msg_role m = ''user'' \<and> msg_content m = Some content \<and>
    list_all (\<lambda>x. msg_role x \<noteq> ''user'') post"
  then have "regenerateLastResponse env u p now s =
     (case msg_content m of
        None \<Rightarrow> Inl (TypeError, s\<lparr>messages := pre\<rparr>)
      | Some content \<Rightarrow>
          Inr (sendMessage env (messages s) content
                 (case msg_attachments m of None \<Rightarrow> [] | Some a \<Rightarrow> a) u p now (s\<lparr>messages := pre\<rparr>)))"
    by (intro regenerate_at_last_user) blast+
  with a show r: "regenerateLastResponse env u p now s =
        Inr (sendMessage env (messages s) content
               (case msg_attachments m of None \<Rightarrow> [] | Some a \<Rightarrow> a) u p now (s\<lparr>messages := pre\<rparr>))"
    by simp
  show "messages (step env (Regenerate u p now) s) =
        pre @ (if trim content = [] \<and> (case msg_attachments m of None \<Rightarrow> [] | Some a \<Rightarrow> a) = []
               then []
               else [createUserMessage u content
                       (case msg_attachments m of None \<Rightarrow> [] | Some a \<Rightarrow> a),
                     createStreamingMessage p])"
    by (simp add: r messages_sendMessage)
next
  assume "ev \<noteq> Clear \<and> (\<forall>u' p' now'. ev \<noteq> Regenerate u' p' now')"
  then show "keeps_messages (messages s) (messages (step env ev s))"
    by (intro keeps_messages_step) simp_all
qed

lemma messages_two_turns:
  "messages two_turns =
     [createUserMessage (stamp_of 1) ''Hi'' [],
      (createStreamingMessage (stamp_of 2))\<lparr>msg_content := Some ''Hello'', msg_isStreaming := Some False\<rparr>]
     @ createUserMessage (stamp_of 6) ''More'' []
     # [(createStreamingMessage (stamp_of 7))\<lparr>msg_content := Some ''Sure'', msg_isStreaming := Some False\<rparr>]"
  by code_simp

lemma stop_streaming:
  "map msg_content (messages streaming) = [Some ''Hi'', Some ''Hello'', Some ''More'', Some ''Su''] \<and>
   map msg_isStreaming (messages streaming) = [None, Some False, None, Some True] \<and>
   map msg_isStreaming (messages (step example_env Stop streaming)) = [None, Some False, None, Some False]"
  by code_simp

theorem regenerate_truncates_witness:
  "messages (step example_env (Regenerate (stamp_of 11) (stamp_of 12) 13) two_turns) =
     [createUserMessage (stamp_of 1) ''Hi'' [],
      (createStreamingMessage (stamp_of 2))\<lparr>msg_content := Some ''Hello'', msg_isStreaming := Some False\<rparr>,
      createUserMessage (stamp_of 11) ''More'' [],
      createStreamingMessage (stamp_of 12)] \<and>
   map msg_isStreaming (messages streaming) = [None, Some False, None, Some True] \<and>
   map msg_isStreaming (messages (step example_env Stop streaming)) = [None, Some False, None, Some False] \<and>
   keeps_messages (messages streaming) (messages (step example_env Stop streaming))"
proof -
  let ?pre = "[createUserMessage (stamp_of 1) ''Hi'' [],
      (createStreamingMessage (stamp_of 2))\<lparr>msg_content := Some ''Hello'', msg_isStreaming := Some False\<rparr>]"
  let ?m = "createUserMessage (stamp_of 6) ''More'' []"
  let ?post = "[(createStreamingMessage (stamp_of 7))\<lparr>msg_content := Some ''Sure'', msg_isStreaming := Some False\<rparr>]"
  note T = regenerate_truncates[of two_turns ?pre ?m ?post "''More''" example_env
      "stamp_of 11" "stamp_of 12" 13 Stop]
  note S = regenerate_truncates[of streaming ?pre ?m ?post "''More''" example_env
      "stamp_of 11" "stamp_of 12" 13 Stop]
  have h: "messages two_turns = ?pre @ ?m # ?post \<and> msg_role ?m = ''user'' \<and>
      msg_content ?m = Some ''More'' \<and> list_all (\<lambda>x. msg_role x \<noteq> ''user'') ?post"
    using messages_two_turns by (simp add: createUserMessage_def createStreamingMessage_def)
  have t: "trim ''More'' \<noteq> []"
    by (simp add: trim_def is_white_space_def)
  have e: "Stop \<noteq> Clear \<and> (\<forall>u' p' now'. Stop \<noteq> Regenerate u' p' now')"
    by simp
  from T h have "messages (step example_env (Regenerate (stamp_of 11) (stamp_of 12) 13) two_turns) =
        ?pre @ (if trim ''More'' = [] \<and> (case msg_attachments ?m of None \<Rightarrow> [] | Some a \<Rightarrow> a) = []
               then []
               else [createUserMessage (stamp_of 11) ''More''
                       (case msg_attachments ?m of None \<Rightarrow> [] | Some a \<Rightarrow> a),
                     createStreamingMessage (stamp_of 12)])"
    by blast
  with t have A: "messages (step example_env (Regenerate (stamp_of 11) (stamp_of 12) 13) two_turns) =
     [createUserMessage (stamp_of 1) ''Hi'' [],
      (createStreamingMessage (stamp_of 2))\<lparr>msg_content := Some ''Hello'', msg_isStreaming := Some False\<rparr>,
      createUserMessage (stamp_of 11) ''More'' [],
      createStreamingMessage (stamp_of 12)]"
    by (simp add: createUserMessage_def)
  from S e have B: "keeps_messages (messages streaming) (messages (step example_env Stop streaming))"
    by blast
  from A B stop_streaming show ?thesis by blast
qed

text \<open>
  \<open>processToolCalls\<close> parses the argument text of every call again, outside any \<open>try\<close>:
  a call whose text is not JSON ends it in the SyntaxError of \<open>JSON.parse\<close>, and a list
  with such a call ends in an exception, which leaves \<open>handleToolCalls\<close>.
\<close>

lemma truncate_parse_tool_call: "tool_call.truncate (parse_tool_call env tc) = tc"
  by (simp add: parse_tool_call_def tool_call.truncate_def tool_call.extend_def
        parsed_tool_call.fields_def)

lemma processToolCalls_loop_malformed_head:
  "JSON_parse env (tc_arguments call) = None \<Longrightarrow>
   processToolCalls_loop env cache (call # calls) results pans = Inl (SyntaxError, pans)"
  by simp

lemma processToolCalls_loop_malformed:
  "\<exists>c\<in>set calls. JSON_parse env (tc_arguments c) = None \<Longrightarrow>
   \<exists>e qs. processToolCalls_loop env cache calls results pans = Inl (e, qs)"
proof (induction calls arbitrary: results pans)
  case Nil
  then show ?case by simp
next
  case (Cons call calls)
  show ?case
  proof (cases "JSON_parse env (tc_arguments call)")
    case None
    then show ?thesis by simp
  next
    case (Some args)
    with Cons.prems have rest: "\<exists>c\<in>set calls. JSON_parse env (tc_arguments c) = None" by auto
    show ?thesis
    proof (cases "executeTool env cache pans (tc_name call) args")
      case (Inl eq)
      with Some show ?thesis by (cases eq) simp
    next
      case (Inr rq)
      with Some Cons.IH[OF rest] show ?thesis by (cases rq) simp
    qed
  qed
qed

lemma handleToolCalls_execute_malformed:
  "\<exists>c\<in>set toolCalls. JSON_parse env (tc_arguments c) = None \<Longrightarrow>
   \<exists>e s'. handleToolCalls_execute env toolCalls s = Inl (e, s')"
proof -
  assume a: "\<exists>c\<in>set toolCalls. JSON_parse env (tc_arguments c) = None"
  have m: "map (tool_call.truncate \<circ> parse_tool_call env) toolCalls = toolCalls"
    by (simp add: comp_def truncate_parse_tool_call)
  from processToolCalls_loop_malformed[OF a, of "toolCache s" "[]" "panels s"] obtain e qs where
    "processToolCalls env (toolCache s) (panels s) toolCalls = Inl (e, qs)"
    by (auto simp: processToolCalls_def)
  then show ?thesis by (simp add: handleToolCalls_execute_def m)
qed

text \<open>
  Stopping the first pass: \<open>streamingMessageRef\<close> is set, so the placeholder's
  \<open>isStreaming\<close> becomes false; \<open>isError\<close>, the error text and the other messages stay as
  they are, and the controller is idle. Without the ref, \<open>stopGeneration\<close> changes no
  message.
\<close>

lemma stop_in_first_pass:
  assumes "inflight s = Some (FirstPass apiMessages)" "abortController s"
    "streamingMessageRef s \<noteq> None" "messages s \<noteq> []"
  shows "msg_isStreaming (last (messages (stopGeneration s))) = Some False \<and>
         msg_isError (last (messages (stopGeneration s))) = msg_isError (last (messages s)) \<and>
         butlast (messages (stopGeneration s)) = butlast (messages s) \<and>
         chat_error (stopGeneration s) = chat_error s \<and>
         \<not> isLoading (stopGeneration s) \<and> inflight (stopGeneration s) = None"
  using assms
  by (simp add: stopGeneration_def abort_def run_cancelled_def after_streamChat_def
        updateLastMessage_def)

lemma stop_without_ref:
  assumes "streamingMessageRef s = None"
  shows "messages (stopGeneration s) = messages s"
  using assms
  by (auto simp: stopGeneration_def abort_def run_cancelled_def after_streamChat_def Let_def
        split: option.splits pending.splits)

text \<open>
  C1. The claim: a tool call whose argument text is not JSON yields a failure result for
  that call, the remaining calls are executed and nothing is thrown. The code, on the
  stream result with the calls \<open>workspace_list_files({)\<close> and \<open>workspace_list_files({})\<close>:
  \<open>processToolCalls\<close> throws the SyntaxError at the first call and the second call is not
  executed; the exception leaves \<open>handleToolCalls\<close>; after the end of the stream the
  conversation holds the user message and the assistant message only: no \<open>tool_results\<close>
  message is appended and no second request is posted.
\<close>

theorem malformed_arguments_abort:
  "result_toolCalls (getResult (streamParser malformed_streaming)) =
     Some [\<lparr>tc_id = ''call_1'', tc_name = ''workspace_list_files'', tc_arguments = ''{''\<rparr>,
           \<lparr>tc_id = ''call_2'', tc_name = ''workspace_list_files'', tc_arguments = ''{}''\<rparr>] \<and>
   processToolCalls example_env (toolCache malformed_streaming) (panels malformed_streaming)
     [\<lparr>tc_id = ''call_1'', tc_name = ''workspace_list_files'', tc_arguments = ''{''\<rparr>,
      \<lparr>tc_id = ''call_2'', tc_name = ''workspace_list_files'', tc_arguments = ''{}''\<rparr>] =
     Inl (SyntaxError, [example_panel]) \<and>
   map_sum fst fst
     (handleToolCalls_execute example_env
        [\<lparr>tc_id = ''call_1'', tc_name = ''workspace_list_files'', tc_arguments = ''{''\<rparr>,
         \<lparr>tc_id = ''call_2'', tc_name = ''workspace_list_files'', tc_arguments = ''{}''\<rparr>]
        malformed_streaming) = Inl SyntaxError \<and>
   map msg_role (messages (step example_env (Done (stamp_of 4) (stamp_of 5)) malformed_streaming)) =
     [''user'', ''assistant''] \<and>
   length (requests (step example_env (Done (stamp_of 4) (stamp_of 5)) malformed_streaming)) = 1"
  by code_simp

text \<open>
  C8. The claim: after a stop in mid-stream the active placeholder's \<open>isStreaming\<close> flag
  is false. The code, when the stop comes during the second pass, after a tool call:
  \<open>streamingMessageRef\<close> was cleared by the \<open>finally\<close> block of \<open>sendMessage\<close> and
  \<open>handleToolCalls\<close> never sets it, so \<open>stopGeneration\<close> aborts the request and sets
  \<open>isLoading\<close> to false, and the placeholder of the second pass keeps
  \<open>isStreaming = true\<close>.
\<close>

theorem stop_in_second_pass:
  "inflight second_pass_streaming = Some SecondPass \<and>
   map msg_role (messages second_pass_streaming) =
     [''user'', ''assistant'', ''tool_results'', ''assistant''] \<and>
   map msg_isStreaming (messages second_pass_streaming) = [None, Some False, None, Some True] \<and>
   streamingMessageRef second_pass_streaming = None \<and>
   map msg_isStreaming (messages (step example_env Stop second_pass_streaming)) =
     [None, Some False, None, Some True] \<and>
   isLoading (step example_env Stop second_pass_streaming) = False \<and>
   inflight (step example_env Stop second_pass_streaming) = None"
  by code_simp

end
